theory Spec2Isabelle
  imports Main "HOL-Library.Multiset"
begin

text \<open>
  A model of the activation-code wizard: the current program \<^verbatim>\<open>Monday-CRM.py\<close> and
  its older copy \<^verbatim>\<open>Backup.py\<close>. The pure helpers (name mapping, sort key) are
  modelled in full on ASCII text. The orchestrators are modelled statement by statement;
  what they exchange with the board service and the CRM is a parameter, a record of
  answer functions, and every request of a run is written to a log. An answer is modelled
  as far as the programs tell answers apart: a raised exception with its text, or the
  decoded payload with the fields the programs read. Diagnostic printing and the pause
  between pages have no effect on any result and are left out.
\<close>

section \<open>Text primitives\<close>

text \<open>
  Python strings are modelled as HOL strings holding ASCII text. The character classes
  below are the ASCII part of what Python's \<^verbatim>\<open>re\<close> module and
  \<^verbatim>\<open>str\<close> methods use on \<^verbatim>\<open>str\<close> values:
  \<^verbatim>\<open>\d\<close> and \<^verbatim>\<open>isdigit\<close> are the ten digits,
  \<^verbatim>\<open>\w\<close> is letters, digits and the underscore,
  \<^verbatim>\<open>\s\<close> is the six ASCII blanks and the four separators 0x1C..0x1F.
\<close>

definition is_digit :: "char \<Rightarrow> bool" where
  "is_digit c = (c \<in> set ''0123456789'')"

definition is_word :: "char \<Rightarrow> bool" where
  "is_word c =
     (c \<in> set ''abcdefghijklmnopqrstuvwxyzABCDEFGHIJKLMNOPQRSTUVWXYZ0123456789_'')"

definition is_space :: "char \<Rightarrow> bool" where
  "is_space c =
     (c \<in> set [CHR '' '', CHR 0x09, CHR 0x0A, CHR 0x0B, CHR 0x0C, CHR 0x0D,
                CHR 0x1C, CHR 0x1D, CHR 0x1E, CHR 0x1F])"

definition upper_char :: "char \<Rightarrow> char" where
  "upper_char c =
     (case map_of (zip ''abcdefghijklmnopqrstuvwxyz'' ''ABCDEFGHIJKLMNOPQRSTUVWXYZ'') c of
        Some u \<Rightarrow> u
      | None \<Rightarrow> c)"

text \<open>\<^verbatim>\<open>str.upper()\<close>.\<close>

definition upper :: "string \<Rightarrow> string" where
  "upper s = map upper_char s"

text \<open>One literal pattern character under \<^verbatim>\<open>re.IGNORECASE\<close>.\<close>

definition ci_eq :: "char \<Rightarrow> char \<Rightarrow> bool" where
  "ci_eq a b = (upper_char a = upper_char b)"

text \<open>\<^verbatim>\<open>str.isdigit()\<close>: non-empty and digits only.\<close>

definition isdigit :: "string \<Rightarrow> bool" where
  "isdigit s = (s \<noteq> [] \<and> list_all is_digit s)"

text \<open>\<^verbatim>\<open>s.split(' ')\<close>: splits at every single blank, keeps empty parts.\<close>

fun split_space :: "string \<Rightarrow> string list" where
  "split_space [] = [[]]"
| "split_space (c # cs) =
     (if c = CHR '' '' then [] # split_space cs
      else (case split_space cs of
              p # ps \<Rightarrow> (c # p) # ps
            | [] \<Rightarrow> [[c]]))"

text \<open>\<^verbatim>\<open>sep.join(parts)\<close>.\<close>

fun join_with :: "string \<Rightarrow> string list \<Rightarrow> string" where
  "join_with sep [] = []"
| "join_with sep [p] = p"
| "join_with sep (p # q # ps) = p @ sep @ join_with sep (q # ps)"

text \<open>\<^verbatim>\<open>needle in haystack\<close> on strings.\<close>

fun contains :: "string \<Rightarrow> string \<Rightarrow> bool" where
  "contains needle [] = (needle = [])"
| "contains needle (c # cs) =
     (take (length needle) (c # cs) = needle \<or> contains needle cs)"

text \<open>\<^verbatim>\<open>s.replace(old, new)\<close> for a non-empty \<^verbatim>\<open>old\<close>: left to right, non-overlapping.\<close>

function replace_str :: "string \<Rightarrow> string \<Rightarrow> string \<Rightarrow> string" where
  "replace_str old new s =
     (if old = [] then s
      else (case s of
              [] \<Rightarrow> []
            | c # cs \<Rightarrow>
                if take (length old) s = old
                then new @ replace_str old new (drop (length old) s)
                else c # replace_str old new cs))"
  by pat_completeness auto
termination
  by (relation "measure (\<lambda>(old, new, s). length s)") auto

text \<open>\<^verbatim>\<open>str(n)\<close> for a non-negative integer.\<close>

definition digit_char :: "nat \<Rightarrow> char" where
  "digit_char d = ''0123456789'' ! d"

function show_nat :: "nat \<Rightarrow> string" where
  "show_nat n = (if n < 10 then [digit_char n] else show_nat (n div 10) @ [digit_char (n mod 10)])"
  by pat_completeness auto
termination
  by (relation "measure id") auto

section \<open>Product name mapping\<close>

text \<open>\<^verbatim>\<open>BASE_PRODUCT_MAPPING\<close> and \<^verbatim>\<open>REGEX_PREFIX_ORDER\<close> (identical in both programs).\<close>

definition BASE_PRODUCT_MAPPING :: "string \<rightharpoonup> string" where
  "BASE_PRODUCT_MAPPING =
     map_of [(''DFP'', ''FilmPack''), (''DVP'', ''ViewPoint''), (''PR'', ''PureRaw''),
             (''PL'', ''PhotoLab''), (''NIK'', ''Nik Collection''), (''VP'', ''ViewPoint''),
             (''FP'', ''FilmPack'')]"

definition REGEX_PREFIX_ORDER :: "string list" where
  "REGEX_PREFIX_ORDER = [''DFP'', ''DVP'', ''PR'', ''PL'', ''NIK'', ''VP'', ''FP'']"

text \<open>
  The pattern \<^verbatim>\<open>\b(PREFIX)\s?-?(\d+)\b\<close> searched with
  \<^verbatim>\<open>re.search(..., re.IGNORECASE)\<close>. A position in the title is the
  character before it (if any) and the text from it on.
  \<^verbatim>\<open>\b\<close> holds where exactly one of the two neighbours is a word character.
\<close>

definition word_boundary :: "char option \<Rightarrow> string \<Rightarrow> bool" where
  "word_boundary prev rest =
     ((case prev of None \<Rightarrow> False | Some p \<Rightarrow> is_word p)
        \<noteq> (case rest of [] \<Rightarrow> False | c # _ \<Rightarrow> is_word c))"

text \<open>
  A greedy optional single character: the continuation that consumed it comes first,
  the one that skipped it second, as the backtracking matcher tries them.
\<close>

definition opt_char :: "(char \<Rightarrow> bool) \<Rightarrow> string \<Rightarrow> string list" where
  "opt_char P s = (case s of [] \<Rightarrow> [s] | c # cs \<Rightarrow> if P c then [cs, s] else [s])"

text \<open>
  \<^verbatim>\<open>(\d+)\b\<close>: the longest run of digits first, then shorter ones, each
  accepted only when a word boundary follows it.
\<close>

definition match_digits :: "string \<Rightarrow> string option" where
  "match_digits s =
     (let m = length (takeWhile is_digit s)
      in map_option (\<lambda>n. take n s)
           (find (\<lambda>n. word_boundary (Some (s ! (n - 1))) (drop n s)) (rev [1..<Suc m])))"

definition match_tail :: "string \<Rightarrow> string option" where
  "match_tail s =
     (case List.map_filter match_digits
             (concat (map (opt_char (\<lambda>c. c = CHR ''-'')) (opt_char is_space s))) of
        [] \<Rightarrow> None
      | v # _ \<Rightarrow> Some v)"

text \<open>A match starting exactly here: groups 1 and 2.\<close>

definition match_here :: "string \<Rightarrow> char option \<Rightarrow> string \<Rightarrow> (string \<times> string) option" where
  "match_here prefix prev s =
     (if word_boundary prev s \<and> length prefix \<le> length s
         \<and> list_all2 ci_eq (take (length prefix) s) prefix
      then map_option (\<lambda>v. (take (length prefix) s, v)) (match_tail (drop (length prefix) s))
      else None)"

text \<open>\<^verbatim>\<open>re.search\<close>: the leftmost starting position that matches.\<close>

fun search_from :: "string \<Rightarrow> char option \<Rightarrow> string \<Rightarrow> (string \<times> string) option" where
  "search_from prefix prev [] = match_here prefix prev []"
| "search_from prefix prev (c # cs) =
     (case match_here prefix prev (c # cs) of
        Some m \<Rightarrow> Some m
      | None \<Rightarrow> search_from prefix (Some c) cs)"

definition re_search :: "string \<Rightarrow> string \<Rightarrow> (string \<times> string) option" where
  "re_search prefix title = search_from prefix None title"

text \<open>
  The loop of \<^verbatim>\<open>get_product_display_name\<close> over the remaining prefixes. A match
  whose upper-cased group 1 has no (non-empty) base name does not stop the loop.
\<close>

fun map_prefixes :: "string list \<Rightarrow> string \<Rightarrow> string" where
  "map_prefixes [] group_title = group_title"
| "map_prefixes (prefix # rest) group_title =
     (case re_search prefix group_title of
        None \<Rightarrow> map_prefixes rest group_title
      | Some (g1, version_number) \<Rightarrow>
          (case BASE_PRODUCT_MAPPING (upper g1) of
             None \<Rightarrow> map_prefixes rest group_title
           | Some base_name \<Rightarrow>
               if base_name \<noteq> [] then base_name @ '' '' @ version_number
               else map_prefixes rest group_title))"

definition get_product_display_name :: "string \<Rightarrow> string" where
  "get_product_display_name group_title = map_prefixes REGEX_PREFIX_ORDER group_title"

section \<open>Result ordering\<close>

text \<open>
  A found item is the tuple
  \<^verbatim>\<open>(item_id, activation_code, product_display_name, mac_link_url, win_link_url)\<close>.
\<close>

type_synonym item_detail = "string \<times> string \<times> string \<times> string \<times> string"

text \<open>
  \<^verbatim>\<open>PRODUCT_ORDER_PRIORITY\<close>, with the entry for the full name
  \<^verbatim>\<open>Nik Collection\<close> that the program adds after the literal.
\<close>

definition PRODUCT_ORDER_PRIORITY :: "string \<rightharpoonup> int" where
  "PRODUCT_ORDER_PRIORITY =
     (map_of [(''PhotoLab'', 1), (''Nik'', 2), (''PureRaw'', 3), (''FilmPack'', 4),
              (''ViewPoint'', 5)])(''Nik Collection'' \<mapsto> 2)"

definition DEFAULT_PRIORITY :: int where
  "DEFAULT_PRIORITY = 99"

text \<open>The loop collecting \<^verbatim>\<open>base_name_parts\<close>, left at the first numeric part.\<close>

fun base_name_loop :: "string list \<Rightarrow> string list \<Rightarrow> string list" where
  "base_name_loop [] base_name_parts = base_name_parts"
| "base_name_loop (part # parts) base_name_parts =
     (if isdigit part then base_name_parts
      else base_name_loop parts (base_name_parts @ [part]))"

text \<open>\<^verbatim>\<open>base_name.split(' ')[0]\<close>; a split never yields an empty list.\<close>

definition first_word :: "string \<Rightarrow> string" where
  "first_word s = (case split_space s of w # _ \<Rightarrow> w | [] \<Rightarrow> [])"

fun get_sort_key :: "item_detail \<Rightarrow> int" where
  "get_sort_key (item_id, code, product_display_name, mac, win) =
     (let base_name = join_with '' '' (base_name_loop (split_space product_display_name) []);
          priority = PRODUCT_ORDER_PRIORITY base_name;
          priority = (if priority = None \<and> CHR '' '' \<in> set base_name
                      then PRODUCT_ORDER_PRIORITY (first_word base_name)
                      else priority)
      in (case priority of Some p \<Rightarrow> p | None \<Rightarrow> DEFAULT_PRIORITY))"

text \<open>
  \<^verbatim>\<open>items_found_details.sort(key=get_sort_key)\<close>, guarded by the list being
  non-empty. Python's \<^verbatim>\<open>list.sort\<close> is a stable ascending sort by key; the
  result of a stable sort is unique, and \<^const>\<open>sort_key\<close> computes it.
\<close>

definition sort_found :: "item_detail list \<Rightarrow> item_detail list" where
  "sort_found items_found_details =
     (if items_found_details \<noteq> [] then sort_key get_sort_key items_found_details
      else items_found_details)"

text \<open>
  The ordering as the specification words it: the base name is the leading run of words
  before the first purely numeric one; the table is asked for the base name, then (when
  the base name has a blank) for its first word, and the default is used last.
\<close>

definition spec_base_name :: "string \<Rightarrow> string" where
  "spec_base_name name = join_with '' '' (takeWhile (\<lambda>w. \<not> isdigit w) (split_space name))"

definition spec_sort_key :: "string \<Rightarrow> int" where
  "spec_sort_key name =
     (let b = spec_base_name name
      in case PRODUCT_ORDER_PRIORITY b of
           Some p \<Rightarrow> p
         | None \<Rightarrow>
             if CHR '' '' \<in> set b
             then (case PRODUCT_ORDER_PRIORITY (takeWhile (\<lambda>c. c \<noteq> CHR '' '') b) of
                     Some p \<Rightarrow> p
                   | None \<Rightarrow> DEFAULT_PRIORITY)
             else DEFAULT_PRIORITY)"

section \<open>Configuration\<close>

definition STATUS_COLUMN_ID :: string where
  "STATUS_COLUMN_ID = ''status''"

definition MAC_LINK_COLUMN_ID :: string where
  "MAC_LINK_COLUMN_ID = ''mac_dowload_link0''"

definition WIN_LINK_COLUMN_ID :: string where
  "WIN_LINK_COLUMN_ID = ''win_download_link''"

definition STATUS_LABEL_NOT_USED :: string where
  "STATUS_LABEL_NOT_USED = ''Not used''"

definition target_status_label :: string where
  "target_status_label = ''Sent & put in B2B CRM''"

definition ZENDESK_OWNER_EMAIL_TO_MONDAY_ID :: "string \<rightharpoonup> int" where
  "ZENDESK_OWNER_EMAIL_TO_MONDAY_ID =
     map_of [(''asoni@dxo.com'', 47981810), (''nbeaumont@dxo.com'', 41505346),
             (''jcinquin@dxo.com'', 45440204), (''msato@dxo.com'', 45440202),
             (''sbakir@dxo.com'', 45440162), (''mplant@dxo.com'', 45440206),
             (''yshi@dxo.com'', 45440205), (''kdare@dxo.com'', 68681569),
             (''mandrianoelison@dxo.com'', 69767169), (''mfernandes@dxo.com'', 70228860)]"

text \<open>Python truthiness of an optional string and of an optional integer.\<close>

definition truthy_str :: "string option \<Rightarrow> bool" where
  "truthy_str s = (case s of None \<Rightarrow> False | Some t \<Rightarrow> t \<noteq> [])"

definition truthy_int :: "int option \<Rightarrow> bool" where
  "truthy_int i = (case i of None \<Rightarrow> False | Some n \<Rightarrow> n \<noteq> 0)"

definition show_int :: "int \<Rightarrow> string" where
  "show_int i = (if i < 0 then ''-'' @ show_nat (nat (- i)) else show_nat (nat i))"

text \<open>How an optional message prints inside an f-string.\<close>

definition show_opt :: "string option \<Rightarrow> string" where
  "show_opt m = (case m of None \<Rightarrow> ''None'' | Some t \<Rightarrow> t)"

definition newline :: string where
  "newline = [CHR 0x0A]"

definition quote :: string where
  "quote = [CHR 0x27]"

section \<open>The two remote services\<close>

text \<open>
  Every request the programs send, and the log of a run: each request in the order it was
  sent, with whether it went through. The log is what a mock client would record.
\<close>

datatype request =
    DealRetrieve string
  | UserRetrieve int
  | GroupsQuery
  | ItemsPage string "string option"
  | NoteCreate string string
  | NoteTag int
  | StatusIndex
  | ChangeStatus string int
  | AssignPerson string int

type_synonym event = "request \<times> bool"

text \<open>
  What a request can come back with, as far as the programs tell the cases apart. A
  \<open>Raises\<close> constructor carries the text of the exception raised anywhere in the
  request, the status check or the decoding of its answer.
\<close>

datatype deal_response = DealRaises string | Deal "int option"

datatype user_response = UserRaises string | User "string option"

datatype groups_response =
    GroupsRequestException string
  | GroupsJsonError
  | GroupsOtherException string
  | GroupsErrors string
  | Groups "(string \<times> string) list"

text \<open>
  The \<^verbatim>\<open>value\<close> of a link column after \<^verbatim>\<open>json.loads\<close>: absent or
  empty, not decodable, an object (with its \<^verbatim>\<open>url\<close> if it has one), or any
  other JSON value, on which \<^verbatim>\<open>.get\<close> raises.
\<close>

datatype link_value = NoValue | Undecodable | JsonObject "string option" | JsonOther

record column_value =
  cv_id :: string
  cv_text :: "string option"
  cv_value :: link_value

record item =
  item_id :: string
  item_name :: string
  column_values :: "column_value list"

datatype page_response =
    PageRaises string
  | PageErrors string
  | PageData "item list" "string option"

datatype create_response = CreateRaises string | Created "int option"

datatype tag_response =
    TagRequestException string
  | TagOtherException string
  | TagHttp nat string

datatype index_response = IndexFound int | IndexNotFound string | IndexRaises string

datatype mutation_response = MutationOk | MutationFailed string

text \<open>
  The services: each answer may depend on everything that happened before in the run.
\<close>

record remote =
  deals_retrieve :: "event list \<Rightarrow> string \<Rightarrow> deal_response"
  users_retrieve :: "event list \<Rightarrow> int \<Rightarrow> user_response"
  groups_query :: "event list \<Rightarrow> groups_response"
  items_page :: "event list \<Rightarrow> string \<Rightarrow> string option \<Rightarrow> page_response"
  notes_create :: "event list \<Rightarrow> string \<Rightarrow> string \<Rightarrow> create_response"
  note_tag :: "event list \<Rightarrow> int \<Rightarrow> tag_response"
  status_index :: "event list \<Rightarrow> index_response"
  change_status :: "event list \<Rightarrow> string \<Rightarrow> int \<Rightarrow> mutation_response"
  assign_person :: "event list \<Rightarrow> string \<Rightarrow> int \<Rightarrow> mutation_response"

definition is_mutation :: "request \<Rightarrow> bool" where
  "is_mutation r = (case r of ChangeStatus _ _ \<Rightarrow> True | AssignPerson _ _ \<Rightarrow> True | _ \<Rightarrow> False)"

section \<open>Client helpers\<close>

definition lower_char :: "char \<Rightarrow> char" where
  "lower_char c =
     (case map_of (zip ''ABCDEFGHIJKLMNOPQRSTUVWXYZ'' ''abcdefghijklmnopqrstuvwxyz'') c of
        Some l \<Rightarrow> l
      | None \<Rightarrow> c)"

text \<open>
  \<^verbatim>\<open>get_zendesk_deal_owner_email\<close>: returns the pair (email, error) and the log.
\<close>

definition owner_exception_message :: "string \<Rightarrow> string \<Rightarrow> string" where
  "owner_exception_message deal_id e =
     (if contains ''Not Found'' e then ''Zendesk Deal ID '' @ deal_id @ '' not found.''
      else ''Error fetching Zendesk deal owner email for Deal ID '' @ deal_id @ '': '' @ e)"

definition get_zendesk_deal_owner_email ::
  "remote \<Rightarrow> event list \<Rightarrow> string \<Rightarrow> (string option \<times> string option) \<times> event list" where
  "get_zendesk_deal_owner_email env h deal_id =
     (case deals_retrieve env h deal_id of
        DealRaises e \<Rightarrow>
          ((None, Some (owner_exception_message deal_id e)), h @ [(DealRetrieve deal_id, False)])
      | Deal owner \<Rightarrow>
          (let h1 = h @ [(DealRetrieve deal_id, True)]
           in if \<not> truthy_int owner
              then ((None, Some (''Could not find deal or owner ID for Zendesk Deal ''
                                   @ deal_id @ ''.'')), h1)
              else (let owner_id = the owner
                    in case users_retrieve env h1 owner_id of
                         UserRaises e \<Rightarrow>
                           ((None, Some (owner_exception_message deal_id e)),
                            h1 @ [(UserRetrieve owner_id, False)])
                       | User email \<Rightarrow>
                           (let h2 = h1 @ [(UserRetrieve owner_id, True)]
                            in if \<not> truthy_str email
                               then ((None, Some (''Could not find owner details or email for Owner ID ''
                                                    @ show_int owner_id @ '' (Deal '' @ deal_id
                                                    @ '').'')), h2)
                               else ((Some (map lower_char (the email)), None), h2)))))"

text \<open>\<^verbatim>\<open>fetch_monday_data\<close>: the pair (groups, error).\<close>

definition fetch_monday_data ::
  "remote \<Rightarrow> event list \<Rightarrow> ((string \<times> string) list option \<times> string option) \<times> event list" where
  "fetch_monday_data env h =
     (case groups_query env h of
        GroupsRequestException e \<Rightarrow>
          ((None, Some (''Network or HTTP error connecting to Monday API: '' @ e)),
           h @ [(GroupsQuery, False)])
      | GroupsJsonError \<Rightarrow>
          ((None, Some ''Error decoding JSON response from Monday API.''),
           h @ [(GroupsQuery, False)])
      | GroupsOtherException e \<Rightarrow>
          ((None, Some (''An unexpected error occurred during Monday API call: '' @ e)),
           h @ [(GroupsQuery, False)])
      | GroupsErrors errs \<Rightarrow>
          ((None, Some (''Monday API Error fetching groups: '' @ errs)),
           h @ [(GroupsQuery, False)])
      | Groups groups \<Rightarrow>
          (if groups = []
           then ((Some [], Some ''No groups found on the specified Monday.com board.''),
                 h @ [(GroupsQuery, True)])
           else ((Some groups, None), h @ [(GroupsQuery, True)])))"

text \<open>
  \<^verbatim>\<open>get_status_index_from_label\<close> answers with an index or an error text, and
  \<^verbatim>\<open>update_monday_item_status\<close> sends the mutation only when it has the index.
  The result is the pair (ok, message).
\<close>

definition update_monday_item_status ::
  "remote \<Rightarrow> event list \<Rightarrow> string \<Rightarrow> (bool \<times> string option) \<times> event list" where
  "update_monday_item_status env h item =
     (case status_index env h of
        IndexNotFound labels \<Rightarrow>
          ((False, Some (''Label '' @ quote @ target_status_label @ quote
                          @ '' not found in settings for column '' @ quote @ STATUS_COLUMN_ID
                          @ quote @ ''. Found: '' @ labels)),
           h @ [(StatusIndex, False)])
      | IndexRaises e \<Rightarrow>
          ((False, Some (''Error getting status index: '' @ e)), h @ [(StatusIndex, False)])
      | IndexFound idx \<Rightarrow>
          (let h1 = h @ [(StatusIndex, True)]
           in case change_status env h1 item idx of
                MutationOk \<Rightarrow> ((True, None), h1 @ [(ChangeStatus item idx, True)])
              | MutationFailed msg \<Rightarrow> ((False, Some msg), h1 @ [(ChangeStatus item idx, False)])))"

text \<open>\<^verbatim>\<open>update_monday_item_person\<close>.\<close>

definition update_monday_item_person ::
  "remote \<Rightarrow> event list \<Rightarrow> string \<Rightarrow> int \<Rightarrow> (bool \<times> string option) \<times> event list" where
  "update_monday_item_person env h item monday_user_id =
     (case assign_person env h item monday_user_id of
        MutationOk \<Rightarrow> ((True, None), h @ [(AssignPerson item monday_user_id, True)])
      | MutationFailed msg \<Rightarrow>
          ((False, Some msg), h @ [(AssignPerson item monday_user_id, False)]))"

section \<open>Finding one available item per group\<close>

text \<open>
  The link of a download column: the text projection, or else the \<^verbatim>\<open>url\<close> of the
  decoded value. \<open>None\<close> is the exception that makes the caller skip the item.
\<close>

definition link_url :: "column_value \<Rightarrow> string option" where
  "link_url cv =
     (let url = (if truthy_str (cv_text cv) then the (cv_text cv) else ''N/A'')
      in if url = ''N/A''
         then (case cv_value cv of
                 NoValue \<Rightarrow> Some url
               | Undecodable \<Rightarrow> Some url
               | JsonObject u \<Rightarrow> Some (case u of None \<Rightarrow> ''N/A'' | Some x \<Rightarrow> x)
               | JsonOther \<Rightarrow> None)
         else Some url)"

text \<open>The loop over \<^verbatim>\<open>item["column_values"]\<close>; the state is (status, mac link, win link).\<close>

fun scan_columns ::
  "column_value list \<Rightarrow> string option \<times> string \<times> string \<Rightarrow> (string option \<times> string \<times> string) option" where
  "scan_columns [] st = Some st"
| "scan_columns (cv # cvs) (status_val, mac_link_url, win_link_url) =
     (if cv_id cv = STATUS_COLUMN_ID then scan_columns cvs (cv_text cv, mac_link_url, win_link_url)
      else if cv_id cv = MAC_LINK_COLUMN_ID
      then (case link_url cv of
              None \<Rightarrow> None
            | Some u \<Rightarrow> scan_columns cvs (status_val, u, win_link_url))
      else if cv_id cv = WIN_LINK_COLUMN_ID
      then (case link_url cv of
              None \<Rightarrow> None
            | Some u \<Rightarrow> scan_columns cvs (status_val, mac_link_url, u))
      else scan_columns cvs (status_val, mac_link_url, win_link_url))"

text \<open>
  The loop \<^verbatim>\<open>for item in reversed(items)\<close>, given the reversed list: an item whose
  columns cannot be processed is skipped, the first one with status
  \<^verbatim>\<open>Not used\<close> is taken.
\<close>

fun first_not_used :: "string \<Rightarrow> item list \<Rightarrow> item_detail option" where
  "first_not_used product_display_name [] = None"
| "first_not_used product_display_name (it # rest) =
     (case scan_columns (column_values it) (None, ''N/A'', ''N/A'') of
        None \<Rightarrow> first_not_used product_display_name rest
      | Some (status_val, mac_link_url, win_link_url) \<Rightarrow>
          if status_val = Some STATUS_LABEL_NOT_USED
          then Some (item_id it, item_name it, product_display_name, mac_link_url, win_link_url)
          else first_not_used product_display_name rest)"

text \<open>An item whose status column reads \<^verbatim>\<open>Not used\<close>.\<close>

definition shows_not_used :: "item \<Rightarrow> bool" where
  "shows_not_used it =
     list_ex (\<lambda>cv. cv_id cv = STATUS_COLUMN_ID \<and> cv_text cv = Some STATUS_LABEL_NOT_USED)
       (column_values it)"

text \<open>
  The pagination loop \<^verbatim>\<open>while True\<close> of the current program. It ends when a page
  comes without a cursor or a request fails; a service that hands out cursors forever
  keeps it running, which is the value \<open>None\<close>.
\<close>

partial_function (option) paginate ::
  "remote \<Rightarrow> string \<Rightarrow> event list \<Rightarrow> string option \<Rightarrow> nat \<Rightarrow> item list
     \<Rightarrow> ((string + item list) \<times> event list) option" where
  "paginate env group_id h current_cursor page_num all_items_in_group =
     (case items_page env h group_id current_cursor of
        PageRaises e \<Rightarrow> Some (Inl e, h @ [(ItemsPage group_id current_cursor, False)])
      | PageErrors errs \<Rightarrow>
          Some (Inl (''Monday API Error on page '' @ show_nat page_num @ '' for group ''
                       @ group_id @ '': '' @ errs),
                h @ [(ItemsPage group_id current_cursor, False)])
      | PageData new_items next_cursor \<Rightarrow>
          if truthy_str next_cursor
          then paginate env group_id (h @ [(ItemsPage group_id current_cursor, True)])
                 next_cursor (Suc page_num) (all_items_in_group @ new_items)
          else Some (Inr (all_items_in_group @ new_items),
                     h @ [(ItemsPage group_id current_cursor, True)]))"

declare paginate.simps [code]

text \<open>
  The state of the loop over the selected groups: the items found so far, the first
  processing error, and the log.
\<close>

type_synonym search_state = "item_detail list \<times> string option \<times> event list"

definition group_title_of :: "(string \<rightharpoonup> string) \<Rightarrow> string \<Rightarrow> string" where
  "group_title_of group_map group_id =
     (case group_map group_id of Some t \<Rightarrow> t | None \<Rightarrow> ''Group ID '' @ group_id)"

text \<open>What one group's items, or the failure to fetch them, do to the state.\<close>

definition record_group ::
  "string \<Rightarrow> (string + item list) \<Rightarrow> item_detail list \<times> string option
     \<Rightarrow> item_detail list \<times> string option" where
  "record_group product_display_name r st =
     (let (items_found_details, global_error) = st
      in case r of
           Inl e \<Rightarrow>
             (items_found_details,
              if \<not> truthy_str global_error
              then Some (''Error during Monday.com processing: '' @ e)
              else global_error)
         | Inr items \<Rightarrow>
             (case first_not_used product_display_name (rev items) of
                Some d \<Rightarrow> (items_found_details @ [d], global_error)
              | None \<Rightarrow> (items_found_details, global_error)))"

definition process_group ::
  "remote \<Rightarrow> (string \<rightharpoonup> string) \<Rightarrow> string \<Rightarrow> search_state \<Rightarrow> search_state option" where
  "process_group env group_map group_id st =
     (let (items_found_details, global_error, h) = st;
          product_display_name = get_product_display_name (group_title_of group_map group_id)
      in case paginate env group_id h None 1 [] of
           None \<Rightarrow> None
         | Some (r, h1) \<Rightarrow>
             (let (found, err) = record_group product_display_name r (items_found_details, global_error)
              in Some (found, err, h1)))"

fun find_codes ::
  "remote \<Rightarrow> (string \<rightharpoonup> string) \<Rightarrow> string list \<Rightarrow> search_state \<Rightarrow> search_state option" where
  "find_codes env group_map [] st = Some st"
| "find_codes env group_map (group_id # group_ids) st =
     (case process_group env group_map group_id st of
        None \<Rightarrow> None
      | Some st1 \<Rightarrow> find_codes env group_map group_ids st1)"

section \<open>Writing the note\<close>

definition note_entry :: "item_detail \<Rightarrow> string" where
  "note_entry d =
     (case d of (item, code, prod_name, mac_url, win_url) \<Rightarrow>
        (let mac_link_str = (if mac_url \<noteq> ''N/A'' then ''[MAC Download Link]('' @ mac_url @ '')''
                             else ''MAC Download Link: N/A'');
             win_link_str = (if win_url \<noteq> ''N/A'' then ''[WIN Download Link]('' @ win_url @ '')''
                             else ''WIN Download Link: N/A'')
         in ''Product Name: '' @ prod_name @ '' || Activation Code: '' @ code @ '' || ''
              @ mac_link_str @ '' || '' @ win_link_str))"

definition zendesk_note_content :: "string list \<Rightarrow> string" where
  "zendesk_note_content note_messages =
     ''Activation Codes'' @ newline @ newline
       @ join_with (newline @ newline @ ''-----------'' @ newline @ newline) note_messages"

text \<open>
  The \<^verbatim>\<open>try\<close> block of step 3 of the current program. \<open>Inl\<close> is the exception that
  reaches the outer handler; \<open>Inr\<close> carries \<^verbatim>\<open>zendesk_success\<close>,
  \<^verbatim>\<open>note_tag_success\<close> and \<^verbatim>\<open>note_tag_error_msg\<close> as the block leaves them.
\<close>

definition tag_failure_message :: "int \<Rightarrow> tag_response \<Rightarrow> string" where
  "tag_failure_message new_note_id r =
     (case r of
        TagHttp code error_details \<Rightarrow>
          ''Failed to tag note '' @ show_int new_note_id @ '' via direct API call. Status: ''
            @ show_nat code @ '', Response: '' @ error_details
      | TagRequestException e \<Rightarrow>
          ''Network error while trying to tag note '' @ show_int new_note_id
            @ '' via direct API call: '' @ e
      | TagOtherException e \<Rightarrow>
          ''Unexpected error while trying to tag note '' @ show_int new_note_id
            @ '' via direct API call: '' @ e)"

text \<open>The tagging request and what the handlers around it leave: (tagged, error text).\<close>

definition tag_note ::
  "remote \<Rightarrow> event list \<Rightarrow> int \<Rightarrow> (bool \<times> string option) \<times> event list" where
  "tag_note env h new_note_id =
     (let r = note_tag env h new_note_id
      in case r of
           TagHttp code error_details \<Rightarrow>
             if code = 200 then ((True, None), h @ [(NoteTag new_note_id, True)])
             else ((False, Some (tag_failure_message new_note_id r)),
                   h @ [(NoteTag new_note_id, False)])
         | _ \<Rightarrow>
             ((False, Some (tag_failure_message new_note_id r)),
              h @ [(NoteTag new_note_id, False)]))"

definition write_note ::
  "remote \<Rightarrow> event list \<Rightarrow> string \<Rightarrow> string
     \<Rightarrow> (string + bool \<times> bool \<times> string option) \<times> event list" where
  "write_note env h deal_id content =
     (case notes_create env h deal_id content of
        CreateRaises e \<Rightarrow> (Inl e, h @ [(NoteCreate deal_id content, False)])
      | Created response_id \<Rightarrow>
          (let h1 = h @ [(NoteCreate deal_id content, True)];
               zendesk_success = True
           in if zendesk_success \<and> truthy_int response_id
              then (let ((note_tag_success, note_tag_error_msg), h2) =
                          tag_note env h1 (the response_id)
                    in (Inr (zendesk_success, note_tag_success, note_tag_error_msg), h2))
              else if zendesk_success
              then (Inr (zendesk_success, False,
                         Some ''Note created, but could not get Note ID from response to update tags.''),
                    h1)
              else (Inr (zendesk_success, False, None), h1)))"

section \<open>Updating the board\<close>

record counters =
  monday_update_successes :: nat
  monday_update_failures :: nat
  monday_update_error_msgs :: "string list"
  monday_person_successes :: nat
  monday_person_failures :: nat
  monday_person_error_msgs :: "string list"

definition zero_counters :: counters where
  "zero_counters =
     \<lparr>monday_update_successes = 0, monday_update_failures = 0, monday_update_error_msgs = [],
      monday_person_successes = 0, monday_person_failures = 0, monday_person_error_msgs = []\<rparr>"

text \<open>
  The body of the loop over the found items (the same in both programs): the status
  first, the owner only after the status went through and only with a user id.
\<close>

definition update_item ::
  "remote \<Rightarrow> int option \<Rightarrow> item_detail \<Rightarrow> counters \<times> event list \<Rightarrow> counters \<times> event list" where
  "update_item env monday_user_id_to_assign d st =
     (let (c, h) = st;
          ((update_ok, update_msg), h1) = update_monday_item_status env h (fst d)
      in if update_ok
         then (let c1 = c\<lparr>monday_update_successes := monday_update_successes c + 1\<rparr>
               in if truthy_int monday_user_id_to_assign
                  then (let ((person_ok, person_msg), h2) =
                              update_monday_item_person env h1 (fst d) (the monday_user_id_to_assign)
                        in if person_ok
                           then (c1\<lparr>monday_person_successes := monday_person_successes c1 + 1\<rparr>, h2)
                           else (c1\<lparr>monday_person_failures := monday_person_failures c1 + 1,
                                     monday_person_error_msgs :=
                                       monday_person_error_msgs c1
                                         @ [''Item '' @ fst d @ '': '' @ show_opt person_msg]\<rparr>,
                                 h2))
                  else (c1, h1))
         else (c\<lparr>monday_update_failures := monday_update_failures c + 1,
                  monday_update_error_msgs :=
                    monday_update_error_msgs c @ [''Item '' @ fst d @ '': '' @ show_opt update_msg]\<rparr>,
               h1))"

fun update_items ::
  "remote \<Rightarrow> int option \<Rightarrow> item_detail list \<Rightarrow> counters \<times> event list \<Rightarrow> counters \<times> event list" where
  "update_items env monday_user_id_to_assign [] st = st"
| "update_items env monday_user_id_to_assign (d # ds) st =
     update_items env monday_user_id_to_assign ds (update_item env monday_user_id_to_assign d st)"

section \<open>The orchestrator of the current program\<close>

text \<open>
  Where \<^verbatim>\<open>process_activation_request\<close> was left, and what it gave: a returned
  pair (success, message), or an exception escaping it.
\<close>

datatype exit_point = OwnerExit | NoItemsExit | NoteExceptionExit | SummaryExit | FallbackExit

datatype outcome = Return exit_point bool string | Raise string

definition check_mark :: string where
  "check_mark = [CHR 0xE2, CHR 0x9C, CHR 0x85]"

definition cross_mark :: string where
  "cross_mark = [CHR 0xE2, CHR 0x9D, CHR 0x8C]"

definition warning_sign :: string where
  "warning_sign = [CHR 0xE2, CHR 0x9A, CHR 0xA0, CHR 0xEF, CHR 0xB8, CHR 0x8F]"

definition owner_warning_of :: "string option \<Rightarrow> int option \<Rightarrow> string option" where
  "owner_warning_of owner_email monday_user_id_to_assign =
     (if \<not> truthy_int monday_user_id_to_assign \<and> truthy_str owner_email
      then Some (''Warning: Owner email '' @ quote @ the owner_email @ quote
                   @ '' not found in map. Person column will not be updated.'')
      else None)"

definition success_parts_of :: "string \<Rightarrow> string option \<Rightarrow> bool \<Rightarrow> bool \<Rightarrow> counters \<Rightarrow> string list" where
  "success_parts_of deal_id owner_email zendesk_success note_tag_success c =
     (if zendesk_success
      then [''Added note to Zendesk Deal '' @ deal_id]
             @ (if note_tag_success then [''Tagged note with '' @ quote @ ''LICENCE'' @ quote] else [])
      else [])
     @ (if monday_update_successes c > 0
        then [''Updated status to '' @ quote @ target_status_label @ quote @ '' for ''
                @ show_nat (monday_update_successes c) @ '' item(s) on Monday.com'']
        else [])
     @ (if monday_person_successes c > 0
        then [''Assigned owner (''
                @ (if truthy_str owner_email then the owner_email else ''(Unknown Email)'')
                @ '') for '' @ show_nat (monday_person_successes c) @ '' item(s)'']
        else [])"

definition failure_parts_of :: "string option \<Rightarrow> string option \<Rightarrow> counters \<Rightarrow> nat \<Rightarrow> string list" where
  "failure_parts_of note_tag_error_msg owner_warning c n_items =
     (if truthy_str note_tag_error_msg then [the note_tag_error_msg] else [])
     @ (if monday_update_failures c > 0
        then [''failed to update status for '' @ show_nat (monday_update_failures c) @ ''/''
                @ show_nat n_items @ '' item(s)'']
             @ (if monday_update_error_msgs c \<noteq> []
                then [''(Status Errors: '' @ join_with ''; '' (monday_update_error_msgs c) @ '')'']
                else [])
        else [])
     @ (if truthy_str owner_warning then [replace_str ''Warning: '' [] (the owner_warning)] else [])"

definition final_message_of :: "string list \<Rightarrow> string list \<Rightarrow> string" where
  "final_message_of success_parts failure_parts =
     ''<b>Process Summary:</b><ul>''
     @ concat (map (\<lambda>part. ''<li>'' @ check_mark @ '' '' @ part @ ''</li>'') success_parts)
     @ ''</ul>''
     @ (if failure_parts \<noteq> []
        then ''<br><b>Notes / Issues:</b><ul>''
             @ concat (map (\<lambda>part. ''<li>''
                                      @ (if contains ''failed'' part then cross_mark else warning_sign)
                                      @ '' '' @ part @ ''</li>'') failure_parts)
             @ ''</ul>''
        else [])"

definition no_codes_message :: "string \<Rightarrow> string" where
  "no_codes_message deal_id =
     ''No '' @ quote @ STATUS_LABEL_NOT_USED @ quote
       @ '' activation codes found in the selected groups for Deal ID '' @ deal_id @ ''.''"

definition zendesk_error_message :: "string \<Rightarrow> string \<Rightarrow> string" where
  "zendesk_error_message deal_id e = ''Failed to write note to Zendesk Deal ID '' @ deal_id @ '': '' @ e"

text \<open>
  The last statement of the function,
  \<^verbatim>\<open>return False, global_error or zendesk_error_msg\<close>, on a path where
  \<^verbatim>\<open>zendesk_error_msg\<close> was never assigned.
\<close>

definition fallback :: "string option \<Rightarrow> outcome" where
  "fallback global_error =
     (if truthy_str global_error then Return FallbackExit False (the global_error)
      else Raise ''UnboundLocalError'')"

definition process_activation_request ::
  "remote \<Rightarrow> event list \<Rightarrow> string \<Rightarrow> string list \<Rightarrow> (string \<rightharpoonup> string) \<Rightarrow> string option
     \<Rightarrow> int option \<Rightarrow> (outcome \<times> event list) option" where
  "process_activation_request env h0 deal_id group_ids group_map owner_email monday_user_id_to_assign =
     (let owner_warning = owner_warning_of owner_email monday_user_id_to_assign
      in case find_codes env group_map group_ids ([], None, h0) of
           None \<Rightarrow> None
         | Some (found, global_error, h1) \<Rightarrow>
             (let items_found_details = sort_found found
              in if items_found_details = []
                 then (if truthy_str global_error
                       then Some (Return NoItemsExit False (the global_error), h1)
                       else Some (Return NoItemsExit False (no_codes_message deal_id), h1))
                 else (let note_messages = map note_entry items_found_details
                       in case write_note env h1 deal_id (zendesk_note_content note_messages) of
                            (Inl e, h2) \<Rightarrow>
                              Some (Return NoteExceptionExit False
                                      (if truthy_str global_error then the global_error
                                       else zendesk_error_message deal_id e), h2)
                          | (Inr (zendesk_success, note_tag_success, note_tag_error_msg), h2) \<Rightarrow>
                              if zendesk_success
                              then (let (c, h3) = update_items env monday_user_id_to_assign
                                                    items_found_details (zero_counters, h2);
                                        final_overall_success = (if zendesk_success then True else False);
                                        success_parts = success_parts_of deal_id owner_email
                                                          zendesk_success note_tag_success c;
                                        failure_parts = failure_parts_of note_tag_error_msg owner_warning c
                                                          (length items_found_details)
                                    in Some (Return SummaryExit final_overall_success
                                               (final_message_of success_parts failure_parts), h3))
                              else Some (fallback global_error, h2))))"

section \<open>The wizard of the current program\<close>

record session =
  current_step :: nat
  ss_deal_id :: string
  ss_owner_email :: "string option"
  show_error :: "string option"
  all_groups :: "(string \<times> string) list"
  selected_groups :: "string list"
  processing :: bool
  note_written :: "bool option"
  success_message :: "string option"

definition initial_session :: session where
  "initial_session =
     \<lparr>current_step = 1, ss_deal_id = [], ss_owner_email = None, show_error = None,
      all_groups = [], selected_groups = [], processing = False, note_written = None,
      success_message = None\<rparr>"

text \<open>\<^verbatim>\<open>str.strip()\<close>.\<close>

definition strip :: "string \<Rightarrow> string" where
  "strip s = rev (dropWhile is_space (rev (dropWhile is_space s)))"

text \<open>
  Step 1, the form submitted: the owner is resolved first, and every
  \<^verbatim>\<open>st.rerun()\<close> ends the handler with the session as it is.
\<close>

definition step1_submit :: "remote \<Rightarrow> event list \<Rightarrow> string \<Rightarrow> session \<Rightarrow> session \<times> event list" where
  "step1_submit env h deal_id_input st =
     (let deal_id = strip deal_id_input
      in if \<not> isdigit deal_id
         then (st\<lparr>show_error := Some ''Please enter a valid numeric Deal ID.''\<rparr>, h)
         else (let st1 = st\<lparr>ss_deal_id := deal_id\<rparr>;
                   ((owner_email, owner_error), h1) = get_zendesk_deal_owner_email env h deal_id
               in if truthy_str owner_error then (st1\<lparr>show_error := owner_error\<rparr>, h1)
                  else if \<not> truthy_str owner_email
                  then (st1\<lparr>show_error := Some (''Could not retrieve owner email for Zendesk Deal ''
                                                   @ deal_id @ ''.'')\<rparr>, h1)
                  else (let st2 = st1\<lparr>ss_owner_email := owner_email\<rparr>;
                            ((fetched_groups, error_msg), h2) = fetch_monday_data env h1
                        in if truthy_str error_msg \<and> fetched_groups = None
                           then (st2\<lparr>show_error := error_msg\<rparr>, h2)
                           else (st2\<lparr>all_groups := (case fetched_groups of Some gs \<Rightarrow> gs | None \<Rightarrow> []),
                                      selected_groups := [],
                                      current_step := 2,
                                      show_error := error_msg\<rparr>, h2))))"

text \<open>Step 2, the check boxes: the titles of the checked groups, in board order.\<close>

definition step2_select :: "(string \<Rightarrow> bool) \<Rightarrow> session \<Rightarrow> session" where
  "step2_select checked st =
     (if all_groups st = [] then st
      else st\<lparr>selected_groups := map snd (filter (\<lambda>g. checked (fst g)) (all_groups st))\<rparr>)"

text \<open>
  Step 2, the button \<^verbatim>\<open>Proceed with Selected Products\<close> and the processing run that
  follows it. The third component is what \<^verbatim>\<open>process_activation_request\<close> gave, if
  it was called at all.
\<close>

definition step2_proceed ::
  "remote \<Rightarrow> event list \<Rightarrow> session \<Rightarrow> (session \<times> event list \<times> outcome option) option" where
  "step2_proceed env h st =
     (if current_step st = 2 \<and> \<not> (length (selected_groups st) = 0 \<or> processing st)
      then (let chosen = filter (\<lambda>g. snd g \<in> set (selected_groups st)) (all_groups st);
                selected_group_ids = map fst chosen;
                selected_group_map = map_of (rev chosen);
                current_owner_email = ss_owner_email st;
                monday_user_id = (case current_owner_email of
                                    None \<Rightarrow> None
                                  | Some e \<Rightarrow> ZENDESK_OWNER_EMAIL_TO_MONDAY_ID e)
            in case process_activation_request env h (ss_deal_id st) selected_group_ids
                      selected_group_map current_owner_email monday_user_id of
                 None \<Rightarrow> None
               | Some (Raise x, h1) \<Rightarrow> Some (st\<lparr>processing := True\<rparr>, h1, Some (Raise x))
               | Some (Return ex final_success message, h1) \<Rightarrow>
                   Some (if final_success
                         then st\<lparr>note_written := Some final_success, processing := False,
                                 success_message := Some message, show_error := None,
                                 current_step := 3\<rparr>
                         else st\<lparr>note_written := Some final_success, processing := False,
                                 success_message := None, show_error := Some message\<rparr>,
                         h1, Some (Return ex final_success message)))
      else Some (st, h, None))"

text \<open>A whole session from a fresh start: a deal id is submitted, boxes are checked, the button is pressed.\<close>

definition wizard_run ::
  "remote \<Rightarrow> string \<Rightarrow> (string \<Rightarrow> bool) \<Rightarrow> (session \<times> event list \<times> outcome option) option" where
  "wizard_run env deal_id_input checked =
     (let (st, h) = step1_submit env [] deal_id_input initial_session
      in step2_proceed env h (step2_select checked st))"

section \<open>The orchestrator of the backup program\<close>

text \<open>The backup program asks for a group's items once, without pagination.\<close>

definition fetch_items_once ::
  "remote \<Rightarrow> string \<Rightarrow> event list \<Rightarrow> (string + item list) \<times> event list" where
  "fetch_items_once env group_id h =
     (case items_page env h group_id None of
        PageRaises e \<Rightarrow> (Inl e, h @ [(ItemsPage group_id None, False)])
      | PageErrors errs \<Rightarrow>
          (Inl (''Monday API Error fetching items for group '' @ group_id @ '': '' @ errs),
           h @ [(ItemsPage group_id None, False)])
      | PageData items c \<Rightarrow> (Inr items, h @ [(ItemsPage group_id None, True)]))"

fun find_codes_backup ::
  "remote \<Rightarrow> (string \<rightharpoonup> string) \<Rightarrow> string list \<Rightarrow> search_state \<Rightarrow> search_state" where
  "find_codes_backup env group_map [] st = st"
| "find_codes_backup env group_map (group_id # group_ids) st =
     (let (items_found_details, global_error, h) = st;
          product_display_name = get_product_display_name (group_title_of group_map group_id);
          (r, h1) = fetch_items_once env group_id h;
          (found, err) = record_group product_display_name r (items_found_details, global_error)
      in find_codes_backup env group_map group_ids (found, err, h1))"

definition note_entry_backup :: "item_detail \<Rightarrow> string" where
  "note_entry_backup d =
     (case d of (item, code, prod_name, mac_url, win_url) \<Rightarrow>
        ''Product Name: '' @ prod_name @ newline
        @ ''Activation Code: '' @ code @ newline
        @ (if mac_url \<noteq> ''N/A'' then ''[MAC Download Link]('' @ mac_url @ '')'' @ newline
           else ''MAC Download Link: N/A'' @ newline)
        @ (if win_url \<noteq> ''N/A'' then ''[WIN Download Link]('' @ win_url @ '')''
           else ''WIN Download Link: N/A''))"

definition write_note_backup ::
  "remote \<Rightarrow> event list \<Rightarrow> string \<Rightarrow> string \<Rightarrow> (string + bool) \<times> event list" where
  "write_note_backup env h deal_id content =
     (case notes_create env h deal_id content of
        CreateRaises e \<Rightarrow> (Inl e, h @ [(NoteCreate deal_id content, False)])
      | Created response_id \<Rightarrow> (Inr True, h @ [(NoteCreate deal_id content, True)]))"

definition owner_warning_backup :: "string \<Rightarrow> int option \<Rightarrow> string option" where
  "owner_warning_backup owner_email monday_user_id_to_assign =
     (if \<not> truthy_int monday_user_id_to_assign
      then Some (''Warning: Owner email '' @ quote @ owner_email @ quote
                   @ '' not found in ZENDESK_OWNER_EMAIL_TO_MONDAY_ID map. Person column will not be updated.'')
      else None)"

definition success_parts_backup :: "string \<Rightarrow> int option \<Rightarrow> counters \<Rightarrow> string list" where
  "success_parts_backup deal_id monday_user_id_to_assign c =
     [''Added note to Zendesk Deal '' @ deal_id]
     @ (if monday_update_failures c = 0
        then [''updated status for '' @ show_nat (monday_update_successes c) @ '' item(s) on Monday.com'']
        else [])
     @ (if truthy_int monday_user_id_to_assign \<and> monday_person_failures c = 0
           \<and> monday_person_successes c > 0
        then [''assigned owner for '' @ show_nat (monday_person_successes c) @ '' item(s)'']
        else [])"

definition failure_parts_backup ::
  "int option \<Rightarrow> string option \<Rightarrow> counters \<Rightarrow> nat \<Rightarrow> string list" where
  "failure_parts_backup monday_user_id_to_assign owner_warning c n_items =
     (if monday_update_failures c = 0 then []
      else [''failed to update status for '' @ show_nat (monday_update_failures c) @ ''/''
              @ show_nat n_items @ '' item(s)'']
           @ (if monday_update_error_msgs c \<noteq> []
              then [''(Status Errors: '' @ join_with ''; '' (monday_update_error_msgs c) @ '')'']
              else []))
     @ (if truthy_int monday_user_id_to_assign
        then (if monday_person_failures c = 0 then []
              else [''failed to assign owner for '' @ show_nat (monday_person_failures c) @ ''/''
                      @ show_nat n_items @ '' item(s)'']
                   @ (if monday_person_error_msgs c \<noteq> []
                      then [''(Owner Assign Errors: ''
                              @ join_with ''; '' (monday_person_error_msgs c) @ '')'']
                      else []))
        else if truthy_str owner_warning then [''(Owner not assigned: owner email not mapped)'']
        else [])"

definition final_message_backup :: "string list \<Rightarrow> string list \<Rightarrow> string" where
  "final_message_backup success_parts failure_parts =
     ''Process Summary: '' @ join_with '' & '' success_parts @ ''.''
     @ (if failure_parts \<noteq> []
        then '' However, '' @ strip (join_with '' and '' failure_parts) @ ''.''
        else [])"

definition process_activation_request_backup ::
  "remote \<Rightarrow> event list \<Rightarrow> string \<Rightarrow> string list \<Rightarrow> (string \<rightharpoonup> string) \<Rightarrow> outcome \<times> event list" where
  "process_activation_request_backup env h0 deal_id group_ids group_map =
     (let ((owner_email, owner_error), h01) = get_zendesk_deal_owner_email env h0 deal_id
      in if truthy_str owner_error then (Return OwnerExit False (the owner_error), h01)
         else if \<not> truthy_str owner_email
         then (Return OwnerExit False
                 (''Could not retrieve owner email for Zendesk Deal '' @ deal_id @ ''.''), h01)
         else
          (let monday_user_id_to_assign = ZENDESK_OWNER_EMAIL_TO_MONDAY_ID (the owner_email);
               owner_warning = owner_warning_backup (the owner_email) monday_user_id_to_assign;
               (found, global_error, h1) = find_codes_backup env group_map group_ids ([], None, h01);
               items_found_details = sort_found found
           in if items_found_details = []
              then (if truthy_str global_error
                    then (Return NoItemsExit False (the global_error), h1)
                    else (Return NoItemsExit False (no_codes_message deal_id), h1))
              else (let note_messages = map note_entry_backup items_found_details
                    in case write_note_backup env h1 deal_id (zendesk_note_content note_messages) of
                         (Inl e, h2) \<Rightarrow>
                           (Return NoteExceptionExit False
                              (if truthy_str global_error then the global_error
                               else zendesk_error_message deal_id e), h2)
                       | (Inr zendesk_success, h2) \<Rightarrow>
                           if zendesk_success
                           then (let (c, h3) = update_items env monday_user_id_to_assign
                                                 items_found_details (zero_counters, h2);
                                     final_overall_success = (monday_update_failures c = 0);
                                     success_parts = success_parts_backup deal_id monday_user_id_to_assign c;
                                     failure_parts = failure_parts_backup monday_user_id_to_assign
                                                       owner_warning c (length items_found_details)
                                 in (Return SummaryExit final_overall_success
                                       (final_message_backup success_parts failure_parts), h3))
                           else (fallback global_error, h2))))"

section \<open>Sample data\<close>

definition sample_found :: "item_detail list" where
  "sample_found =
     [(''101'', ''CODE-A'', ''FilmPack 6'', ''N/A'', ''N/A''),
      (''102'', ''CODE-B'', ''Nik Collection 7'', ''N/A'', ''N/A''),
      (''103'', ''CODE-C'', ''Legacy Bundle'', ''N/A'', ''N/A''),
      (''104'', ''CODE-D'', ''Nik 3'', ''N/A'', ''N/A''),
      (''105'', ''CODE-E'', ''FilmPack 5'', ''N/A'', ''N/A'')]"

text \<open>
  A board with two groups. The first holds a used item and, newer, an available one; the
  second holds used items only. The deal's owner is in the assignment table.
\<close>

definition used_item :: item where
  "used_item =
     \<lparr>item_id = ''9000'', item_name = ''AAAA-0000'',
      column_values =
        [\<lparr>cv_id = ''status'', cv_text = Some ''Sent & put in B2B CRM'', cv_value = NoValue\<rparr>]\<rparr>"

definition fresh_item :: item where
  "fresh_item =
     \<lparr>item_id = ''9001'', item_name = ''ABCD-1234'',
      column_values =
        [\<lparr>cv_id = ''status'', cv_text = Some ''Not used'', cv_value = NoValue\<rparr>,
         \<lparr>cv_id = ''mac_dowload_link0'', cv_text = Some ''https://dl.example/mac'', cv_value = NoValue\<rparr>,
         \<lparr>cv_id = ''win_download_link'', cv_text = None,
          cv_value = JsonObject (Some ''https://dl.example/win'')\<rparr>]\<rparr>"

definition all_fine :: remote where
  "all_fine =
     \<lparr>deals_retrieve = (\<lambda>h d. Deal (Some 77)),
      users_retrieve = (\<lambda>h u. User (Some ''ASoni@dxo.com'')),
      groups_query = (\<lambda>h. Groups [(''g1'', ''DFP-6''), (''g2'', ''PL 8'')]),
      items_page = (\<lambda>h g c. if g = ''g1'' then PageData [used_item, fresh_item] None
                              else PageData [used_item] None),
      notes_create = (\<lambda>h d c. Created (Some 555)),
      note_tag = (\<lambda>h n. TagHttp 200 []),
      status_index = (\<lambda>h. IndexFound 3),
      change_status = (\<lambda>h i idx. MutationOk),
      assign_person = (\<lambda>h i u. MutationOk)\<rparr>"

definition sample_groups :: "string \<rightharpoonup> string" where
  "sample_groups = map_of [(''g1'', ''DFP-6''), (''g2'', ''PL 8'')]"

text \<open>The same services with one request failing.\<close>

definition status_fails :: remote where
  "status_fails = all_fine\<lparr>change_status := (\<lambda>h i idx. MutationFailed ''column is locked'')\<rparr>"

definition person_fails :: remote where
  "person_fails = all_fine\<lparr>assign_person := (\<lambda>h i u. MutationFailed ''user is deactivated'')\<rparr>"

definition tag_fails :: remote where
  "tag_fails = all_fine\<lparr>note_tag := (\<lambda>h n. TagHttp 500 ''server error'')\<rparr>"

definition owner_fails :: remote where
  "owner_fails = all_fine\<lparr>deals_retrieve := (\<lambda>h d. DealRaises ''404 Not Found'')\<rparr>"

section \<open>Reading the log\<close>

text \<open>What the log of a run says about one item, and how often an event of a kind occurs in it.\<close>

definition is_items_page :: "event \<Rightarrow> bool" where
  "is_items_page e = (case fst e of ItemsPage _ _ \<Rightarrow> True | _ \<Rightarrow> False)"

definition is_status_change :: "event \<Rightarrow> bool" where
  "is_status_change e = (case fst e of ChangeStatus _ _ \<Rightarrow> True | _ \<Rightarrow> False)"

definition is_assignment :: "event \<Rightarrow> bool" where
  "is_assignment e = (case fst e of AssignPerson _ _ \<Rightarrow> True | _ \<Rightarrow> False)"

definition status_updated :: "string \<Rightarrow> event list \<Rightarrow> bool" where
  "status_updated i es =
     list_ex (\<lambda>e. case fst e of ChangeStatus j _ \<Rightarrow> j = i \<and> snd e | _ \<Rightarrow> False) es"

definition assign_attempted :: "string \<Rightarrow> event list \<Rightarrow> bool" where
  "assign_attempted i es =
     list_ex (\<lambda>e. case fst e of AssignPerson j _ \<Rightarrow> j = i | _ \<Rightarrow> False) es"

definition count_events :: "(event \<Rightarrow> bool) \<Rightarrow> event list \<Rightarrow> nat" where
  "count_events P es = length (filter P es)"

text \<open>
  What the loop over the found items with ids \<open>ids\<close> may add to the log and to the
  counters: an owner assignment exactly for the items whose status went through, and then
  only with a user id; one status attempt per item; every counter the number of the
  events it counts.
\<close>

definition run_summary ::
  "int option \<Rightarrow> string list \<Rightarrow> counters \<Rightarrow> counters \<Rightarrow> event list \<Rightarrow> bool" where
  "run_summary uid ids c c' es \<longleftrightarrow>
     (\<forall>j. assign_attempted j es \<longleftrightarrow> truthy_int uid \<and> status_updated j es)
   \<and> (\<forall>j. status_updated j es \<longrightarrow> j \<in> set ids)
   \<and> (\<forall>e\<in>set es. fst e = StatusIndex \<or> is_status_change e \<or> is_assignment e)
   \<and> count_events (\<lambda>e. fst e = StatusIndex) es = length ids
   \<and> monday_update_successes c'
        = monday_update_successes c + count_events (\<lambda>e. is_status_change e \<and> snd e) es
   \<and> monday_update_successes c' + monday_update_failures c'
        = monday_update_successes c + monday_update_failures c + length ids
   \<and> monday_person_successes c'
        = monday_person_successes c + count_events (\<lambda>e. is_assignment e \<and> snd e) es
   \<and> monday_person_failures c'
        = monday_person_failures c + count_events (\<lambda>e. is_assignment e \<and> \<not> snd e) es
   \<and> length (monday_update_error_msgs c') = length (monday_update_error_msgs c)
        + (monday_update_failures c' - monday_update_failures c)
   \<and> monday_update_failures c \<le> monday_update_failures c'"

text \<open>What the search finds on that board, and the note the current program writes for it.\<close>

definition sample_detail :: item_detail where
  "sample_detail =
     (''9001'', ''ABCD-1234'', ''FilmPack 6'', ''https://dl.example/mac'', ''https://dl.example/win'')"

definition sample_note :: string where
  "sample_note = zendesk_note_content [note_entry sample_detail]"

definition sample_search_log :: "event list" where
  "sample_search_log = [(ItemsPage ''g1'' None, True), (ItemsPage ''g2'' None, True)]"

text \<open>The owner warning as the summary shows it, without its \<^verbatim>\<open>Warning: \<close> prefix.\<close>

definition warning_text :: "string \<Rightarrow> string" where
  "warning_text email =
     ''Owner email '' @ quote @ email @ quote
       @ '' not found in map. Person column will not be updated.''"

section \<open>Properties of the name mapping and the ordering\<close>

subsection \<open>The match is always spelled like the prefix\<close>

lemma ci_eq_upper: "list_all2 ci_eq g p \<Longrightarrow> upper g = upper p"
  by (induction rule: list_all2_induct) (auto simp: ci_eq_def upper_def)

lemma match_here_group: "match_here prefix prev s = Some (g, v) \<Longrightarrow> list_all2 ci_eq g prefix"
  by (auto simp: match_here_def split: if_splits)

lemma search_from_group: "search_from prefix prev s = Some (g, v) \<Longrightarrow> list_all2 ci_eq g prefix"
proof (induction s arbitrary: prev)
  case Nil
  then show ?case by (simp add: match_here_group)
next
  case (Cons c cs)
  then show ?case
    by (cases "match_here prefix prev (c # cs)") (auto dest: match_here_group)
qed

lemma re_search_upper: "re_search prefix t = Some (g, v) \<Longrightarrow> upper g = upper prefix"
  unfolding re_search_def by (blast dest: search_from_group ci_eq_upper)

lemma dfp_wins:
  assumes "re_search ''DFP'' t = Some (g, v)"
  shows "get_product_display_name t = ''FilmPack '' @ v"
proof -
  have "upper ''DFP'' = ''DFP''" by (simp add: upper_def upper_char_def)
  with re_search_upper[OF assms] have "upper g = ''DFP''" by simp
  then show ?thesis using assms
    by (simp add: get_product_display_name_def REGEX_PREFIX_ORDER_def BASE_PRODUCT_MAPPING_def)
qed

lemma dvp_wins:
  assumes "re_search ''DFP'' t = None" and "re_search ''DVP'' t = Some (g, v)"
  shows "get_product_display_name t = ''ViewPoint '' @ v"
proof -
  have "upper ''DVP'' = ''DVP''" by (simp add: upper_def upper_char_def)
  with re_search_upper[OF assms(2)] have "upper g = ''DVP''" by simp
  then show ?thesis using assms
    by (simp add: get_product_display_name_def REGEX_PREFIX_ORDER_def BASE_PRODUCT_MAPPING_def)
qed

text \<open>
  Claim C3. \<^verbatim>\<open>get_product_display_name\<close> maps the four titles of the test table as the
  table says (\<^verbatim>\<open>DFP-6\<close> to \<^verbatim>\<open>FilmPack 6\<close>, \<^verbatim>\<open>VP4\<close> to
  \<^verbatim>\<open>ViewPoint 4\<close>, \<^verbatim>\<open>NIK 7\<close> to \<^verbatim>\<open>Nik Collection 7\<close>,
  \<^verbatim>\<open>RandomGroup\<close> unchanged), and a longer token wins over the shorter one it
  overlaps: whenever the title holds a \<^verbatim>\<open>DFP\<close> token the result is FilmPack with
  that token's digits, and whenever it holds a \<^verbatim>\<open>DVP\<close> token (and no
  \<^verbatim>\<open>DFP\<close> token, which comes first in the order) the result is ViewPoint with
  that token's digits, whatever \<^verbatim>\<open>FP\<close> or \<^verbatim>\<open>VP\<close> tokens the title
  holds besides. A title holds a token when the token's pattern finds a match in it.
\<close>

theorem product_name_table_and_overlap:
  "get_product_display_name ''DFP-6'' = ''FilmPack 6''
   \<and> get_product_display_name ''VP4'' = ''ViewPoint 4''
   \<and> get_product_display_name ''NIK 7'' = ''Nik Collection 7''
   \<and> get_product_display_name ''RandomGroup'' = ''RandomGroup''
   \<and> (\<forall>t g v. re_search ''DFP'' t = Some (g, v)
          \<longrightarrow> get_product_display_name t = ''FilmPack '' @ v)
   \<and> (\<forall>t g v. re_search ''DFP'' t = None \<and> re_search ''DVP'' t = Some (g, v)
          \<longrightarrow> get_product_display_name t = ''ViewPoint '' @ v)"
proof -
  have "get_product_display_name ''DFP-6'' = ''FilmPack 6''" by code_simp
  moreover have "get_product_display_name ''VP4'' = ''ViewPoint 4''" by code_simp
  moreover have "get_product_display_name ''NIK 7'' = ''Nik Collection 7''" by code_simp
  moreover have "get_product_display_name ''RandomGroup'' = ''RandomGroup''" by code_simp
  ultimately show ?thesis using dfp_wins dvp_wins by blast
qed

text \<open>
  The overlap rule at two titles that hold both tokens of a pair as separate words: the
  shorter token comes first in the text and still loses.
\<close>

theorem product_name_table_and_overlap_witness:
  "re_search ''FP'' ''FP 5 DFP 6'' = Some (''FP'', ''5'')
   \<and> re_search ''DFP'' ''FP 5 DFP 6'' = Some (''DFP'', ''6'')
   \<and> get_product_display_name ''FP 5 DFP 6'' = ''FilmPack 6''
   \<and> re_search ''VP'' ''VP 3 DVP 4'' = Some (''VP'', ''3'')
   \<and> re_search ''DFP'' ''VP 3 DVP 4'' = None
   \<and> re_search ''DVP'' ''VP 3 DVP 4'' = Some (''DVP'', ''4'')
   \<and> get_product_display_name ''VP 3 DVP 4'' = ''ViewPoint 4''"
proof -
  have a: "re_search ''DFP'' ''FP 5 DFP 6'' = Some (''DFP'', ''6'')" by code_simp
  have b: "re_search ''DFP'' ''VP 3 DVP 4'' = None" by code_simp
  have c: "re_search ''DVP'' ''VP 3 DVP 4'' = Some (''DVP'', ''4'')" by code_simp
  have d: "re_search ''FP'' ''FP 5 DFP 6'' = Some (''FP'', ''5'')" by code_simp
  have e: "re_search ''VP'' ''VP 3 DVP 4'' = Some (''VP'', ''3'')" by code_simp
  from product_name_table_and_overlap a
  have f: "get_product_display_name ''FP 5 DFP 6'' = ''FilmPack '' @ ''6''" by blast
  from product_name_table_and_overlap b c
  have g: "get_product_display_name ''VP 3 DVP 4'' = ''ViewPoint '' @ ''4''" by blast
  from a b c d e f g show ?thesis by simp
qed

subsection \<open>The sort key\<close>

lemma base_name_loop_takeWhile:
  "base_name_loop ps acc = acc @ takeWhile (\<lambda>w. \<not> isdigit w) ps"
  by (induction ps arbitrary: acc) auto

lemma first_word_takeWhile: "first_word s = takeWhile (\<lambda>c. c \<noteq> CHR '' '') s"
  by (induction s) (auto simp: first_word_def split: list.splits)

lemma get_sort_key_spec: "get_sort_key (a, b, n, c, d) = spec_sort_key n"
  by (auto simp: spec_sort_key_def spec_base_name_def base_name_loop_takeWhile
      first_word_takeWhile Let_def split: option.splits)

lemma priority_below_default:
  "PRODUCT_ORDER_PRIORITY k = Some p \<Longrightarrow> p < DEFAULT_PRIORITY"
  by (simp add: PRODUCT_ORDER_PRIORITY_def DEFAULT_PRIORITY_def split: if_splits)

lemma get_sort_key_le: "get_sort_key x \<le> DEFAULT_PRIORITY"
proof -
  obtain a b n c d where x: "x = (a, b, n, c, d)" by (cases x) auto
  show ?thesis unfolding x get_sort_key_spec spec_sort_key_def Let_def
    by (auto split: option.splits dest: priority_below_default)
qed

lemma sorted_sort_found: "sorted (map get_sort_key (sort_found xs))"
  by (simp add: sort_found_def)

lemma default_key_sorts_last:
  assumes "i \<le> j" and "j < length (sort_found xs)"
    and "get_sort_key (sort_found xs ! i) = DEFAULT_PRIORITY"
  shows "get_sort_key (sort_found xs ! j) = DEFAULT_PRIORITY"
proof -
  have "map get_sort_key (sort_found xs) ! i \<le> map get_sort_key (sort_found xs) ! j"
    using sorted_sort_found assms(1,2) by (intro sorted_nth_mono) auto
  then have "DEFAULT_PRIORITY \<le> get_sort_key (sort_found xs ! j)"
    using assms by simp
  with get_sort_key_le[of "sort_found xs ! j"] show ?thesis by simp
qed

text \<open>
  Claim C8. The key \<^verbatim>\<open>get_sort_key\<close> computes for a found item is the one the
  specification words, a word being what stands between two single blanks: the base name
  is the leading run of words before the first purely numeric one; the key is the table entry of the base name if it has one, else (when the
  base name holds a blank) the table entry of its first word if it has one, else the
  default 99. Every table entry is below 99 and no key is above it, so in the sorted list
  nothing with another key follows an item with the default key.
\<close>

theorem get_sort_key_as_specified:
  "get_sort_key (item, code, name, mac, win) = spec_sort_key name
   \<and> DEFAULT_PRIORITY = 99
   \<and> (\<forall>k p. PRODUCT_ORDER_PRIORITY k = Some p \<longrightarrow> p < DEFAULT_PRIORITY)
   \<and> get_sort_key (item, code, name, mac, win) \<le> DEFAULT_PRIORITY
   \<and> (\<forall>xs i j. i \<le> j \<and> j < length (sort_found xs)
          \<and> get_sort_key (sort_found xs ! i) = DEFAULT_PRIORITY
        \<longrightarrow> get_sort_key (sort_found xs ! j) = DEFAULT_PRIORITY)"
proof -
  have a: "get_sort_key (item, code, name, mac, win) = spec_sort_key name"
    by (rule get_sort_key_spec)
  have b: "DEFAULT_PRIORITY = 99" by (simp add: DEFAULT_PRIORITY_def)
  have c: "\<forall>k p. PRODUCT_ORDER_PRIORITY k = Some p \<longrightarrow> p < DEFAULT_PRIORITY"
    using priority_below_default by blast
  have d: "get_sort_key (item, code, name, mac, win) \<le> DEFAULT_PRIORITY"
    by (rule get_sort_key_le)
  have e: "\<forall>xs i j. i \<le> j \<and> j < length (sort_found xs)
          \<and> get_sort_key (sort_found xs ! i) = DEFAULT_PRIORITY
        \<longrightarrow> get_sort_key (sort_found xs ! j) = DEFAULT_PRIORITY"
    using default_key_sorts_last by blast
  from a b c d e show ?thesis by blast
qed

theorem get_sort_key_as_specified_witness:
  "get_sort_key (''102'', ''CODE-B'', ''Nik Collection 7'', ''N/A'', ''N/A'') = 2
   \<and> spec_sort_key ''Nik Collection 7'' = 2
   \<and> PRODUCT_ORDER_PRIORITY ''Nik'' = Some 2 \<and> (2::int) < DEFAULT_PRIORITY
   \<and> get_sort_key (sort_found sample_found ! 4) = DEFAULT_PRIORITY"
proof -
  have a: "spec_sort_key ''Nik Collection 7'' = 2" by code_simp
  have b: "PRODUCT_ORDER_PRIORITY ''Nik'' = Some 2" by (simp add: PRODUCT_ORDER_PRIORITY_def)
  have c: "get_sort_key (sort_found sample_found ! 4) = DEFAULT_PRIORITY" by code_simp
  have d: "length (sort_found sample_found) = 5" by code_simp
  from get_sort_key_as_specified[of "''102''" "''CODE-B''" "''Nik Collection 7''" "''N/A''" "''N/A''"]
  have e: "get_sort_key (''102'', ''CODE-B'', ''Nik Collection 7'', ''N/A'', ''N/A'')
             = spec_sort_key ''Nik Collection 7''"
    and f: "\<forall>k p. PRODUCT_ORDER_PRIORITY k = Some p \<longrightarrow> p < DEFAULT_PRIORITY"
    and g: "\<forall>xs i j. i \<le> j \<and> j < length (sort_found xs)
          \<and> get_sort_key (sort_found xs ! i) = DEFAULT_PRIORITY
        \<longrightarrow> get_sort_key (sort_found xs ! j) = DEFAULT_PRIORITY"
    by blast+
  from f b have h: "(2::int) < DEFAULT_PRIORITY" by blast
  have "(4::nat) \<le> 4 \<and> 4 < length (sort_found sample_found)
          \<and> get_sort_key (sort_found sample_found ! 4) = DEFAULT_PRIORITY"
    using c d by simp
  with g have "get_sort_key (sort_found sample_found ! 4) = DEFAULT_PRIORITY" by blast
  with a b e h show ?thesis by simp
qed

subsection \<open>The sort\<close>

text \<open>
  Claim C7. The priority sort is stable: for every list of found items and every key,
  the items with that key stand in the sorted list in the order in which they were
  found. The sorted list is moreover ascending in the key and holds the same items.
\<close>

theorem sort_found_stable:
  "filter (\<lambda>d. get_sort_key d = k) (sort_found xs) = filter (\<lambda>d. get_sort_key d = k) xs
   \<and> sorted (map get_sort_key (sort_found xs))
   \<and> mset (sort_found xs) = mset xs"
  by (simp add: sort_found_def sort_key_stable)

theorem sort_found_stable_witness:
  "filter (\<lambda>d. get_sort_key d = 4) (sort_found sample_found)
     = [(''101'', ''CODE-A'', ''FilmPack 6'', ''N/A'', ''N/A''),
        (''105'', ''CODE-E'', ''FilmPack 5'', ''N/A'', ''N/A'')]
   \<and> filter (\<lambda>d. get_sort_key d = 2) (sort_found sample_found)
     = [(''102'', ''CODE-B'', ''Nik Collection 7'', ''N/A'', ''N/A''),
        (''104'', ''CODE-D'', ''Nik 3'', ''N/A'', ''N/A'')]"
proof -
  have a: "filter (\<lambda>d. get_sort_key d = 4) sample_found
     = [(''101'', ''CODE-A'', ''FilmPack 6'', ''N/A'', ''N/A''),
        (''105'', ''CODE-E'', ''FilmPack 5'', ''N/A'', ''N/A'')]" by code_simp
  have b: "filter (\<lambda>d. get_sort_key d = 2) sample_found
     = [(''102'', ''CODE-B'', ''Nik Collection 7'', ''N/A'', ''N/A''),
        (''104'', ''CODE-D'', ''Nik 3'', ''N/A'', ''N/A'')]" by code_simp
  from sort_found_stable[of 4 sample_found] sort_found_stable[of 2 sample_found] a b
  show ?thesis by simp
qed

section \<open>Properties of the orchestrators\<close>

subsection \<open>Substrings\<close>

lemma contains_iff: "contains n s \<longleftrightarrow> (\<exists>a b. s = a @ n @ b)"
proof (induction s)
  case Nil
  then show ?case by auto
next
  case (Cons c cs)
  show ?case
  proof
    assume "contains n (c # cs)"
    then consider "take (length n) (c # cs) = n" | "contains n cs" by auto
    then show "\<exists>a b. c # cs = a @ n @ b"
    proof cases
      case 1
      then have "c # cs = [] @ n @ drop (length n) (c # cs)"
        by (metis append_Nil append_take_drop_id)
      then show ?thesis by blast
    next
      case 2
      with Cons.IH obtain a b where "cs = a @ n @ b" by blast
      then have "c # cs = (c # a) @ n @ b" by simp
      then show ?thesis by blast
    qed
  next
    assume "\<exists>a b. c # cs = a @ n @ b"
    then obtain a b where ab: "c # cs = a @ n @ b" by blast
    show "contains n (c # cs)"
    proof (cases a)
      case Nil
      with ab have "take (length n) (c # cs) = n" by simp
      then show ?thesis by simp
    next
      case (Cons x xs)
      with ab have "cs = xs @ n @ b" by simp
      with Cons.IH have "contains n cs" by blast
      then show ?thesis by simp
    qed
  qed
qed

lemma contains_in_concat:
  assumes "p \<in> set ps"
  shows "contains p (concat (map (\<lambda>part. pre part @ part @ post) ps))"
  using assms
proof (induction ps)
  case Nil
  then show ?case by simp
next
  case (Cons q qs)
  show ?case
  proof (cases "p = q")
    case True
    have "concat (map (\<lambda>part. pre part @ part @ post) (q # qs))
            = pre q @ q @ (post @ concat (map (\<lambda>part. pre part @ part @ post) qs))" by simp
    with True show ?thesis unfolding contains_iff by blast
  next
    case False
    with Cons obtain a b where "concat (map (\<lambda>part. pre part @ part @ post) qs) = a @ p @ b"
      unfolding contains_iff by auto
    then have "concat (map (\<lambda>part. pre part @ part @ post) (q # qs))
            = (pre q @ q @ post @ a) @ p @ b" by simp
    then show ?thesis unfolding contains_iff by blast
  qed
qed

lemma failure_part_in_message:
  assumes "p \<in> set failure_parts"
  shows "contains p (final_message_of success_parts failure_parts)"
proof -
  from assms have ne: "failure_parts \<noteq> []" by auto
  let ?pre = "\<lambda>part. ''<li>'' @ (if contains ''failed'' part then cross_mark else warning_sign) @ '' ''"
  have "contains p (concat (map (\<lambda>part. ?pre part @ part @ ''</li>'') failure_parts))"
    using assms by (rule contains_in_concat)
  then obtain a b where
    "concat (map (\<lambda>part. ?pre part @ part @ ''</li>'') failure_parts) = a @ p @ b"
    unfolding contains_iff by blast
  then have "final_message_of success_parts failure_parts
      = (''<b>Process Summary:</b><ul>''
     @ concat (map (\<lambda>part. ''<li>'' @ check_mark @ '' '' @ part @ ''</li>'') success_parts)
     @ ''</ul>'' @ ''<br><b>Notes / Issues:</b><ul>'' @ a) @ p @ (b @ ''</ul>'')"
    using ne by (simp add: final_message_of_def)
  then show ?thesis unfolding contains_iff by blast
qed

subsection \<open>The search and its log\<close>

text \<open>
  A pagination that ends has sent requests for its own group only, and it hands back the
  items exactly when every one of them went through.
\<close>

lemma paginate_log:
  assumes "paginate env g h cur n acc = Some y"
  shows "\<exists>es. snd y = h @ es \<and> (\<forall>e\<in>set es. \<exists>c. fst e = ItemsPage g c)
            \<and> ((\<exists>items. fst y = Inr items) \<longleftrightarrow> (\<forall>e\<in>set es. snd e))"
proof (rule paginate.raw_induct[where P = "\<lambda>env g h cur n acc y. \<exists>es. snd y = h @ es \<and> (\<forall>e\<in>set es. \<exists>c. fst e = ItemsPage g c)
            \<and> ((\<exists>items. fst y = Inr items) \<longleftrightarrow> (\<forall>e\<in>set es. snd e))", OF _ assms])
  fix paginate' env g h cur n acc y
  assume IH: "\<And>env' g' h' cur' n' acc' y'. paginate' env' g' h' cur' n' acc' = Some y' \<Longrightarrow>
     \<exists>es. snd y' = h' @ es \<and> (\<forall>e\<in>set es. \<exists>c. fst e = ItemsPage g' c)
            \<and> ((\<exists>items. fst y' = Inr items) \<longleftrightarrow> (\<forall>e\<in>set es. snd e))"
    and body: "(case items_page env h g cur of
      PageRaises e \<Rightarrow> Some (Inl e, h @ [(ItemsPage g cur, False)])
      | PageErrors errs \<Rightarrow>
          Some (Inl (''Monday API Error on page '' @ show_nat n @ '' for group '' @ g @ '': '' @ errs),
            h @ [(ItemsPage g cur, False)])
      | PageData new_items next_cursor \<Rightarrow>
          if truthy_str next_cursor
          then paginate' env g (h @ [(ItemsPage g cur, True)]) next_cursor (Suc n) (acc @ new_items)
          else Some (Inr (acc @ new_items), h @ [(ItemsPage g cur, True)])) = Some y"
  show "\<exists>es. snd y = h @ es \<and> (\<forall>e\<in>set es. \<exists>c. fst e = ItemsPage g c)
            \<and> ((\<exists>items. fst y = Inr items) \<longleftrightarrow> (\<forall>e\<in>set es. snd e))"
  proof (cases "items_page env h g cur")
    case (PageRaises e)
    with body show ?thesis by auto
  next
    case (PageErrors errs)
    with body show ?thesis by auto
  next
    case (PageData new_items next_cursor)
    show ?thesis
    proof (cases "truthy_str next_cursor")
      case True
      with PageData body
      have "paginate' env g (h @ [(ItemsPage g cur, True)]) next_cursor (Suc n) (acc @ new_items) = Some y"
        by simp
      from IH[OF this] obtain es where
        es: "snd y = (h @ [(ItemsPage g cur, True)]) @ es"
            "\<forall>e\<in>set es. \<exists>c. fst e = ItemsPage g c"
            "(\<exists>items. fst y = Inr items) \<longleftrightarrow> (\<forall>e\<in>set es. snd e)" by blast
      show ?thesis
        by (rule exI[of _ "(ItemsPage g cur, True) # es"]) (use es in auto)
    next
      case False
      with PageData body show ?thesis by auto
    qed
  qed
qed

lemma scan_columns_status:
  assumes "scan_columns cvs (s0, m0, w0) = Some (s, m, w)"
  shows "s = s0 \<or> (\<exists>cv\<in>set cvs. cv_id cv = STATUS_COLUMN_ID \<and> cv_text cv = s)"
  using assms
proof (induction cvs arbitrary: s0 m0 w0)
  case Nil
  then show ?case by simp
next
  case (Cons cv cvs)
  show ?case
  proof (cases "cv_id cv = STATUS_COLUMN_ID")
    case True
    with Cons.prems have "scan_columns cvs (cv_text cv, m0, w0) = Some (s, m, w)" by simp
    from Cons.IH[OF this] True show ?thesis by auto
  next
    case False
    with Cons.prems obtain m1 w1 where "scan_columns cvs (s0, m1, w1) = Some (s, m, w)"
      by (auto split: if_splits option.splits)
    from Cons.IH[OF this] show ?thesis by auto
  qed
qed

lemma first_not_used_None:
  assumes "\<forall>it\<in>set items. \<not> shows_not_used it"
  shows "first_not_used name items = None"
  using assms
proof (induction items)
  case Nil
  then show ?case by simp
next
  case (Cons it items)
  then have rest: "first_not_used name items = None" by simp
  from Cons.prems have no: "\<not> shows_not_used it" by simp
  show ?case
  proof (cases "scan_columns (column_values it) (None, ''N/A'', ''N/A'')")
    case None
    with rest show ?thesis by simp
  next
    case (Some st)
    obtain s m w where st: "st = (s, m, w)" by (cases st) auto
    from scan_columns_status[OF Some[unfolded st]] no
    have "s \<noteq> Some STATUS_LABEL_NOT_USED"
      by (auto simp: shows_not_used_def list_ex_iff)
    with Some st rest show ?thesis by simp
  qed
qed

lemma process_group_skips:
  assumes "paginate env gid h None 1 [] = Some (Inr items, h')"
    and "\<forall>it\<in>set items. \<not> shows_not_used it"
  shows "process_group env gm gid (found, gerr, h) = Some (found, gerr, h')"
proof -
  from assms(2) have "\<forall>it\<in>set (rev items). \<not> shows_not_used it" by simp
  then have "first_not_used (get_product_display_name (group_title_of gm gid)) (rev items) = None"
    by (rule first_not_used_None)
  with assms(1) show ?thesis
    by (simp add: process_group_def record_group_def)
qed

text \<open>The error slot is empty or holds a non-empty text, and is never emptied again.\<close>

lemma process_group_log:
  assumes "process_group env gm gid (found, gerr, h) = Some (found', gerr', h')"
    and "gerr = None \<or> truthy_str gerr"
  shows "\<exists>es. h' = h @ es \<and> (\<forall>e\<in>set es. is_items_page e)
            \<and> (gerr' = None \<or> truthy_str gerr')
            \<and> (gerr' = None \<longleftrightarrow> gerr = None \<and> (\<forall>e\<in>set es. snd e))"
proof -
  from assms(1) obtain r where
    p: "paginate env gid h None 1 [] = Some (r, h')"
    and rg: "record_group (get_product_display_name (group_title_of gm gid)) r (found, gerr) = (found', gerr')"
    by (auto simp: process_group_def Let_def split: option.splits prod.splits)
  from paginate_log[OF p] obtain es where
    es: "h' = h @ es" "\<forall>e\<in>set es. \<exists>c. fst e = ItemsPage gid c"
        "(\<exists>items. r = Inr items) \<longleftrightarrow> (\<forall>e\<in>set es. snd e)" by auto
  from es(2) have pages: "\<forall>e\<in>set es. is_items_page e"
    by (auto simp: is_items_page_def)
  show ?thesis
  proof (cases r)
    case (Inl e)
    with es(3) have bad: "\<not> (\<forall>e\<in>set es. snd e)" by simp
    from Inl rg assms(2) have "truthy_str gerr'"
      by (auto simp: record_group_def truthy_str_def split: if_splits)
    then have "gerr' \<noteq> None" "gerr' = None \<or> truthy_str gerr'"
      by (auto simp: truthy_str_def split: option.splits)
    with es(1) pages bad show ?thesis by blast
  next
    case (Inr items)
    with es(3) have good: "\<forall>e\<in>set es. snd e" by blast
    from Inr rg have "gerr' = gerr" by (auto simp: record_group_def split: option.splits)
    with es(1) pages good assms(2) show ?thesis by blast
  qed
qed

lemma find_codes_log:
  assumes "find_codes env gm gids (found, gerr, h) = Some (found', gerr', h')"
    and "gerr = None \<or> truthy_str gerr"
  shows "\<exists>es. h' = h @ es \<and> (\<forall>e\<in>set es. is_items_page e)
            \<and> (gerr' = None \<longleftrightarrow> gerr = None \<and> (\<forall>e\<in>set es. snd e))"
  using assms
proof (induction gids arbitrary: found gerr h)
  case Nil
  then show ?case by simp
next
  case (Cons gid gids)
  from Cons.prems(1) obtain f1 g1 h1 where
    step: "process_group env gm gid (found, gerr, h) = Some (f1, g1, h1)"
    and rest: "find_codes env gm gids (f1, g1, h1) = Some (found', gerr', h')"
    by (auto split: option.splits)
  from process_group_log[OF step Cons.prems(2)] obtain es1 where
    es1: "h1 = h @ es1" "\<forall>e\<in>set es1. is_items_page e" "g1 = None \<or> truthy_str g1"
         "g1 = None \<longleftrightarrow> gerr = None \<and> (\<forall>e\<in>set es1. snd e)" by blast
  from Cons.IH[OF rest es1(3)] obtain es2 where
    es2: "h' = h1 @ es2" "\<forall>e\<in>set es2. is_items_page e"
         "gerr' = None \<longleftrightarrow> g1 = None \<and> (\<forall>e\<in>set es2. snd e)" by blast
  show ?case
  proof (intro exI[of _ "es1 @ es2"] conjI)
    show "h' = h @ es1 @ es2" using es1(1) es2(1) by simp
    show "\<forall>e\<in>set (es1 @ es2). is_items_page e" using es1(2) es2(2) by auto
    show "gerr' = None \<longleftrightarrow> gerr = None \<and> (\<forall>e\<in>set (es1 @ es2). snd e)"
      using es1(4) es2(3) by auto
  qed
qed

subsection \<open>The note\<close>

lemma write_note_flag:
  "write_note env h deal_id content = (Inr (zs, ts, te), h') \<Longrightarrow> zs"
  by (auto simp: write_note_def Let_def split: create_response.splits if_splits prod.splits)

lemma sort_found_Nil: "sort_found xs = [] \<longleftrightarrow> xs = []"
proof -
  have "length (sort_found xs) = length xs" by (simp add: sort_found_def)
  then show ?thesis by (metis length_0_conv)
qed

subsection \<open>The loop over the found items\<close>

lemma status_call_log:
  assumes "update_monday_item_status env h i = ((ok, m), h1)"
  shows "(\<not> ok \<and> h1 = h @ [(StatusIndex, False)])
       \<or> (\<exists>idx. h1 = h @ [(StatusIndex, True), (ChangeStatus i idx, ok)])"
  using assms
  by (auto simp: update_monday_item_status_def Let_def
      split: index_response.splits mutation_response.splits)

lemma person_call_log:
  assumes "update_monday_item_person env h i u = ((ok, m), h1)"
  shows "h1 = h @ [(AssignPerson i u, ok)]"
  using assms
  by (auto simp: update_monday_item_person_def split: mutation_response.splits)

lemma update_item_cases:
  assumes "update_item env uid d (c, h) = (c', h')"
  obtains (index_failed) m where
      "h' = h @ [(StatusIndex, False)]"
      "c' = c\<lparr>monday_update_failures := monday_update_failures c + 1,
             monday_update_error_msgs := monday_update_error_msgs c @ [m]\<rparr>"
  | (status_failed) idx m where
      "h' = h @ [(StatusIndex, True), (ChangeStatus (fst d) idx, False)]"
      "c' = c\<lparr>monday_update_failures := monday_update_failures c + 1,
             monday_update_error_msgs := monday_update_error_msgs c @ [m]\<rparr>"
  | (unmapped) idx where
      "\<not> truthy_int uid"
      "h' = h @ [(StatusIndex, True), (ChangeStatus (fst d) idx, True)]"
      "c' = c\<lparr>monday_update_successes := monday_update_successes c + 1\<rparr>"
  | (assigned) idx where
      "truthy_int uid"
      "h' = h @ [(StatusIndex, True), (ChangeStatus (fst d) idx, True),
                 (AssignPerson (fst d) (the uid), True)]"
      "c' = c\<lparr>monday_update_successes := monday_update_successes c + 1,
             monday_person_successes := monday_person_successes c + 1\<rparr>"
  | (assign_failed) idx m where
      "truthy_int uid"
      "h' = h @ [(StatusIndex, True), (ChangeStatus (fst d) idx, True),
                 (AssignPerson (fst d) (the uid), False)]"
      "c' = c\<lparr>monday_update_successes := monday_update_successes c + 1,
             monday_person_failures := monday_person_failures c + 1,
             monday_person_error_msgs := monday_person_error_msgs c @ [m]\<rparr>"
proof -
  obtain ok m h1 where s: "update_monday_item_status env h (fst d) = ((ok, m), h1)"
    by (metis prod.exhaust)
  show thesis
  proof (cases ok)
    case False
    with s assms have c': "c' = c\<lparr>monday_update_failures := monday_update_failures c + 1,
             monday_update_error_msgs := monday_update_error_msgs c @ [''Item '' @ fst d @ '': '' @ show_opt m]\<rparr>"
      and h': "h' = h1"
      by (auto simp: update_item_def)
    from status_call_log[OF s] False h' c' show thesis
      using index_failed status_failed by blast
  next
    case True
    with status_call_log[OF s] obtain idx where
      h1: "h1 = h @ [(StatusIndex, True), (ChangeStatus (fst d) idx, True)]" by blast
    show thesis
    proof (cases "truthy_int uid")
      case False
      with s True assms h1 show thesis
        by (intro unmapped[of idx]) (auto simp: update_item_def)
    next
      case mapped: True
      obtain pok pm h2 where p: "update_monday_item_person env h1 (fst d) (the uid) = ((pok, pm), h2)"
        by (metis prod.exhaust)
      from person_call_log[OF p] h1
      have h2: "h2 = h @ [(StatusIndex, True), (ChangeStatus (fst d) idx, True),
                 (AssignPerson (fst d) (the uid), pok)]" by simp
      show thesis
      proof (cases pok)
        case True
        with s \<open>ok\<close> mapped p h2 assms show thesis
          by (intro assigned[of idx]) (auto simp: update_item_def)
      next
        case False
        with s \<open>ok\<close> mapped p h2 assms show thesis
          by (intro assign_failed[of idx]) (auto simp: update_item_def)
      qed
    qed
  qed
qed

lemma status_updated_append [simp]:
  "status_updated j (a @ b) \<longleftrightarrow> status_updated j a \<or> status_updated j b"
  by (simp add: status_updated_def)

lemma assign_attempted_append [simp]:
  "assign_attempted j (a @ b) \<longleftrightarrow> assign_attempted j a \<or> assign_attempted j b"
  by (simp add: assign_attempted_def)

lemma count_events_append [simp]:
  "count_events P (a @ b) = count_events P a + count_events P b"
  by (simp add: count_events_def)

lemma observers_Nil [simp]:
  "\<not> status_updated j []" "\<not> assign_attempted j []" "count_events P [] = 0"
  by (simp_all add: status_updated_def assign_attempted_def count_events_def)

lemma run_summary_Nil: "run_summary uid [] c c []"
  by (simp add: run_summary_def)

lemma run_summary_append:
  assumes "run_summary uid ids1 c c1 es1" and "run_summary uid ids2 c1 c2 es2"
  shows "run_summary uid (ids1 @ ids2) c c2 (es1 @ es2)"
  using assms unfolding run_summary_def
  by (intro conjI) (simp_all, blast+)

lemma update_item_summary:
  assumes "update_item env uid d (c, h) = (c', h')"
  shows "\<exists>es. h' = h @ es \<and> run_summary uid [fst d] c c' es"
  using assms
proof (cases rule: update_item_cases)
  case (index_failed m)
  then show ?thesis
    by (intro exI[of _ "[(StatusIndex, False)]"])
       (simp add: run_summary_def status_updated_def assign_attempted_def count_events_def
          is_status_change_def is_assignment_def)
next
  case (status_failed idx m)
  then show ?thesis
    by (intro exI[of _ "[(StatusIndex, True), (ChangeStatus (fst d) idx, False)]"])
       (simp add: run_summary_def status_updated_def assign_attempted_def count_events_def
          is_status_change_def is_assignment_def)
next
  case (unmapped idx)
  then show ?thesis
    by (intro exI[of _ "[(StatusIndex, True), (ChangeStatus (fst d) idx, True)]"])
       (simp add: run_summary_def status_updated_def assign_attempted_def count_events_def
          is_status_change_def is_assignment_def)
next
  case (assigned idx)
  then show ?thesis
    by (intro exI[of _ "[(StatusIndex, True), (ChangeStatus (fst d) idx, True),
                 (AssignPerson (fst d) (the uid), True)]"])
       (auto simp add: run_summary_def status_updated_def assign_attempted_def count_events_def
          is_status_change_def is_assignment_def)
next
  case (assign_failed idx m)
  then show ?thesis
    by (intro exI[of _ "[(StatusIndex, True), (ChangeStatus (fst d) idx, True),
                 (AssignPerson (fst d) (the uid), False)]"])
       (auto simp add: run_summary_def status_updated_def assign_attempted_def count_events_def
          is_status_change_def is_assignment_def)
qed

lemma update_items_summary:
  assumes "update_items env uid ds (c, h) = (c', h')"
  shows "\<exists>es. h' = h @ es \<and> run_summary uid (map fst ds) c c' es"
  using assms
proof (induction ds arbitrary: c h)
  case Nil
  then show ?case using run_summary_Nil by auto
next
  case (Cons d ds)
  obtain c1 h1 where step: "update_item env uid d (c, h) = (c1, h1)" by (metis prod.exhaust)
  from update_item_summary[OF step] obtain es1 where
    es1: "h1 = h @ es1" "run_summary uid [fst d] c c1 es1" by blast
  from Cons.prems step have "update_items env uid ds (c1, h1) = (c', h')" by simp
  from Cons.IH[OF this] obtain es2 where
    es2: "h' = h1 @ es2" "run_summary uid (map fst ds) c1 c' es2" by blast
  from run_summary_append[OF es1(2) es2(2)] es1(1) es2(1)
  show ?case by (intro exI[of _ "es1 @ es2"]) simp
qed

subsection \<open>The paths through the current orchestrator\<close>

lemma process_exits:
  assumes "process_activation_request env h0 deal_id group_ids group_map owner_email uid = Some (out, h)"
  shows "\<exists>b m. out = Return NoItemsExit b m \<or> out = Return NoteExceptionExit b m \<or> out = Return SummaryExit b m"
  using assms
  by (auto simp: process_activation_request_def Let_def 
      split: option.splits prod.splits if_splits sum.splits dest: write_note_flag)

lemma process_returns:
  "process_activation_request env h0 deal_id group_ids group_map owner_email uid = None
     \<longleftrightarrow> find_codes env group_map group_ids ([], None, h0) = None"
  by (auto simp: process_activation_request_def Let_def 
      split: option.splits prod.splits if_splits sum.splits)

lemma process_summary_path:
  assumes "find_codes env gm gids ([], None, h0) = Some (found, gerr, h1)"
    and "found \<noteq> []"
    and "write_note env h1 deal (zendesk_note_content (map note_entry (sort_found found)))
           = (Inr (zs, ts, te), h2)"
    and "update_items env uid (sort_found found) (zero_counters, h2) = (c, h3)"
  shows "process_activation_request env h0 deal gids gm email uid
     = Some (Return SummaryExit True
               (final_message_of (success_parts_of deal email True ts c)
                  (failure_parts_of te (owner_warning_of email uid) c (length (sort_found found)))),
             h3)"
proof -
  from assms(3) have zs by (rule write_note_flag)
  moreover from assms(2) have "sort_found found \<noteq> []" by (simp add: sort_found_Nil)
  ultimately show ?thesis using assms
    by (simp add: process_activation_request_def Let_def)
qed

lemma no_codes_message_differs: "zendesk_error_message deal e \<noteq> no_codes_message deal'"
  by (simp add: zendesk_error_message_def no_codes_message_def)

lemma process_nothing_found:
  assumes "find_codes env gm gids ([], None, h0) = Some ([], None, h1)"
  shows "process_activation_request env h0 deal gids gm email uid
           = Some (Return NoItemsExit False (no_codes_message deal), h1)"
  using assms
  by (simp add: process_activation_request_def sort_found_def truthy_str_def)

lemma process_something_found:
  assumes "find_codes env gm gids ([], None, h0) = Some (found, None, h1)" and "found \<noteq> []"
  shows "\<exists>out h. process_activation_request env h0 deal gids gm email uid = Some (out, h)
          \<and> (\<forall>ex. out \<noteq> Return ex False (no_codes_message deal))"
proof -
  from assms(2) have ne: "sort_found found \<noteq> []" by (simp add: sort_found_Nil)
  obtain r h2 where w: "write_note env h1 deal (zendesk_note_content (map note_entry (sort_found found))) = (r, h2)"
    by (metis prod.exhaust)
  show ?thesis
  proof (cases r)
    case (Inl e)
    with w assms(1) ne show ?thesis
      by (simp add: process_activation_request_def Let_def truthy_str_def no_codes_message_differs)
  next
    case (Inr flags)
    obtain zs ts te where flags: "flags = (zs, ts, te)" by (cases flags) auto
    obtain c h3 where u: "update_items env uid (sort_found found) (zero_counters, h2) = (c, h3)"
      by (metis prod.exhaust)
    from process_summary_path[OF assms(1,2) w[unfolded Inr flags] u]
    show ?thesis by auto
  qed
qed

subsection \<open>Runs on the sample board\<close>

lemma run_all_fine:
  "process_activation_request all_fine [] ''4242'' [''g1'', ''g2''] sample_groups
     (Some ''asoni@dxo.com'') (Some 47981810)
   = Some (Return SummaryExit True
             (final_message_of
                [''Added note to Zendesk Deal 4242'', ''Tagged note with '' @ quote @ ''LICENCE'' @ quote,
                 ''Updated status to '' @ quote @ ''Sent & put in B2B CRM'' @ quote
                   @ '' for 1 item(s) on Monday.com'',
                 ''Assigned owner (asoni@dxo.com) for 1 item(s)''] []),
           sample_search_log @
           [(NoteCreate ''4242'' sample_note, True), (NoteTag 555, True), (StatusIndex, True),
            (ChangeStatus ''9001'' 3, True), (AssignPerson ''9001'' 47981810, True)])"
  by code_simp

lemma run_person_fails:
  "process_activation_request person_fails [] ''4242'' [''g1'', ''g2''] sample_groups
     (Some ''asoni@dxo.com'') (Some 47981810)
   = Some (Return SummaryExit True
             (final_message_of
                [''Added note to Zendesk Deal 4242'', ''Tagged note with '' @ quote @ ''LICENCE'' @ quote,
                 ''Updated status to '' @ quote @ ''Sent & put in B2B CRM'' @ quote
                   @ '' for 1 item(s) on Monday.com''] []),
           sample_search_log @
           [(NoteCreate ''4242'' sample_note, True), (NoteTag 555, True), (StatusIndex, True),
            (ChangeStatus ''9001'' 3, True), (AssignPerson ''9001'' 47981810, False)])"
  by code_simp

lemma run_person_fails_backup:
  "process_activation_request_backup person_fails [] ''4242'' [''g1'', ''g2''] sample_groups
   = (Return SummaryExit True
        (''Process Summary: Added note to Zendesk Deal 4242 & updated status for 1 item(s) on Monday.com.''
          @ '' However, failed to assign owner for 1/1 item(s) and (Owner Assign Errors: Item 9001: user is deactivated).''),
      [(DealRetrieve ''4242'', True), (UserRetrieve 77, True)] @ sample_search_log @
      [(NoteCreate ''4242'' (zendesk_note_content [note_entry_backup sample_detail]), True),
       (StatusIndex, True), (ChangeStatus ''9001'' 3, True), (AssignPerson ''9001'' 47981810, False)])"
  by code_simp

lemma run_status_fails:
  "process_activation_request status_fails [] ''4242'' [''g1'', ''g2''] sample_groups
     (Some ''asoni@dxo.com'') (Some 47981810)
   = Some (Return SummaryExit True
             (final_message_of
                [''Added note to Zendesk Deal 4242'', ''Tagged note with '' @ quote @ ''LICENCE'' @ quote]
                [''failed to update status for 1/1 item(s)'',
                 ''(Status Errors: Item 9001: column is locked)'']),
           sample_search_log @
           [(NoteCreate ''4242'' sample_note, True), (NoteTag 555, True), (StatusIndex, True),
            (ChangeStatus ''9001'' 3, False)])"
  by code_simp

lemma run_status_fails_backup:
  "process_activation_request_backup status_fails [] ''4242'' [''g1'', ''g2''] sample_groups
   = (Return SummaryExit False
        (''Process Summary: Added note to Zendesk Deal 4242.''
          @ '' However, failed to update status for 1/1 item(s) and (Status Errors: Item 9001: column is locked).''),
      [(DealRetrieve ''4242'', True), (UserRetrieve 77, True)] @ sample_search_log @
      [(NoteCreate ''4242'' (zendesk_note_content [note_entry_backup sample_detail]), True),
       (StatusIndex, True), (ChangeStatus ''9001'' 3, False)])"
  by code_simp

lemma owner_of_sample:
  "get_zendesk_deal_owner_email status_fails [] ''4242''
     = ((Some ''asoni@dxo.com'', None), [(DealRetrieve ''4242'', True), (UserRetrieve 77, True)])
   \<and> ZENDESK_OWNER_EMAIL_TO_MONDAY_ID ''asoni@dxo.com'' = Some 47981810"
  by code_simp

lemma wizard_status_fails:
  "wizard_run status_fails ''4242'' (\<lambda>g. True)
   = Some (initial_session\<lparr>ss_deal_id := ''4242'', ss_owner_email := Some ''asoni@dxo.com'',
             all_groups := [(''g1'', ''DFP-6''), (''g2'', ''PL 8'')],
             selected_groups := [''DFP-6'', ''PL 8''], 
             note_written := Some True, processing := False,
             success_message := Some (final_message_of
                [''Added note to Zendesk Deal 4242'', ''Tagged note with '' @ quote @ ''LICENCE'' @ quote]
                [''failed to update status for 1/1 item(s)'',
                 ''(Status Errors: Item 9001: column is locked)'']),
             show_error := None, current_step := 3\<rparr>,
           [(DealRetrieve ''4242'', True), (UserRetrieve 77, True), (GroupsQuery, True)] @ sample_search_log @
           [(NoteCreate ''4242'' sample_note, True), (NoteTag 555, True), (StatusIndex, True),
            (ChangeStatus ''9001'' 3, False)],
           Some (Return SummaryExit True
             (final_message_of
                [''Added note to Zendesk Deal 4242'', ''Tagged note with '' @ quote @ ''LICENCE'' @ quote]
                [''failed to update status for 1/1 item(s)'',
                 ''(Status Errors: Item 9001: column is locked)''])))"
  by code_simp

section \<open>The claims about the orchestrators\<close>

subsection \<open>The last statement of the current orchestrator\<close>

text \<open>
  Claim C10. The last statement of \<^verbatim>\<open>process_activation_request\<close> in the current
  program, \<^verbatim>\<open>return False, global_error or zendesk_error_msg\<close>, is never reached:
  whatever the inputs and whatever the services answer, a call that returns has left
  through the no-items branch, the handler of the note exception or the summary branch, so
  the exception that reading the unassigned \<^verbatim>\<open>zendesk_error_msg\<close> would raise
  never occurs. The reason is that the \<^verbatim>\<open>try\<close> block, when it ends without an
  exception, has set \<^verbatim>\<open>zendesk_success\<close>. The call returns whenever the search over
  the groups ends.
\<close>

theorem fallback_unreachable:
  "(process_activation_request env h0 deal gids gm email uid = None
      \<longleftrightarrow> find_codes env gm gids ([], None, h0) = None)
   \<and> (\<forall>out h. process_activation_request env h0 deal gids gm email uid = Some (out, h) \<longrightarrow>
         (\<exists>b m. out = Return NoItemsExit b m \<or> out = Return NoteExceptionExit b m
                 \<or> out = Return SummaryExit b m)
         \<and> (\<forall>b m. out \<noteq> Return FallbackExit b m) \<and> (\<forall>x. out \<noteq> Raise x))
   \<and> (\<forall>h content zs ts te h'. write_note env h deal content = (Inr (zs, ts, te), h') \<longrightarrow> zs)"
proof (intro conjI allI impI)
  show "process_activation_request env h0 deal gids gm email uid = None
      \<longleftrightarrow> find_codes env gm gids ([], None, h0) = None"
    by (rule process_returns)
next
  fix out h
  assume run: "process_activation_request env h0 deal gids gm email uid = Some (out, h)"
  from process_exits[OF run]
  show "\<exists>b m. out = Return NoItemsExit b m \<or> out = Return NoteExceptionExit b m
                 \<or> out = Return SummaryExit b m" .
  then show "out \<noteq> Return FallbackExit b m" for b m by auto
  from process_exits[OF run] show "out \<noteq> Raise x" for x by auto
next
  fix h content zs ts te h'
  assume "write_note env h deal content = (Inr (zs, ts, te), h')"
  then show zs by (rule write_note_flag)
qed

text \<open>The run on the sample board with every request going through.\<close>

theorem fallback_unreachable_witness:
  "\<exists>out h. process_activation_request all_fine [] ''4242'' [''g1'', ''g2''] sample_groups
              (Some ''asoni@dxo.com'') (Some 47981810) = Some (out, h)
     \<and> (\<exists>m. out = Return SummaryExit True m)
     \<and> (\<forall>b m. out \<noteq> Return FallbackExit b m) \<and> (\<forall>x. out \<noteq> Raise x)"
proof -
  from fallback_unreachable[of all_fine "[]" "''4242''" "[''g1'', ''g2'']" sample_groups
        "Some ''asoni@dxo.com''" "Some 47981810"]
  have "\<forall>out h. process_activation_request all_fine [] ''4242'' [''g1'', ''g2''] sample_groups
              (Some ''asoni@dxo.com'') (Some 47981810) = Some (out, h) \<longrightarrow>
         (\<forall>b m. out \<noteq> Return FallbackExit b m) \<and> (\<forall>x. out \<noteq> Raise x)" by blast
  with run_all_fine show ?thesis by blast
qed

subsection \<open>Soft failures\<close>

lemma summary_ignores_person_failures:
  "success_parts_of deal email zs ts (c\<lparr>monday_person_failures := x, monday_person_error_msgs := y\<rparr>)
     = success_parts_of deal email zs ts c
   \<and> failure_parts_of te ow (c\<lparr>monday_person_failures := x, monday_person_error_msgs := y\<rparr>) n
     = failure_parts_of te ow c n"
  by (simp add: success_parts_of_def failure_parts_of_def)

text \<open>
  Claim C1, at the run where it breaks. The owner resolves and is in the table, the note
  is created and tagged, the status of the one found item is updated, and the owner
  assignment fails. The current program returns success, as the claim says, but its
  summary has no issue entry at all: the failed assignment, which the log shows, is
  nowhere in the message. The backup program, on the same run, itemizes it. The summary
  of the current program never reads the two counters of failed assignments
  (\<open>summary_ignores_person_failures\<close>).
\<close>

theorem assignment_failure_left_out:
  "process_activation_request person_fails [] ''4242'' [''g1'', ''g2''] sample_groups
     (Some ''asoni@dxo.com'') (Some 47981810)
   = Some (Return SummaryExit True
             (final_message_of
                [''Added note to Zendesk Deal 4242'', ''Tagged note with '' @ quote @ ''LICENCE'' @ quote,
                 ''Updated status to '' @ quote @ ''Sent & put in B2B CRM'' @ quote
                   @ '' for 1 item(s) on Monday.com''] []),
           sample_search_log @
           [(NoteCreate ''4242'' sample_note, True), (NoteTag 555, True), (StatusIndex, True),
            (ChangeStatus ''9001'' 3, True), (AssignPerson ''9001'' 47981810, False)])
   \<and> \<not> contains ''user is deactivated''
         (final_message_of
            [''Added note to Zendesk Deal 4242'', ''Tagged note with '' @ quote @ ''LICENCE'' @ quote,
             ''Updated status to '' @ quote @ ''Sent & put in B2B CRM'' @ quote
               @ '' for 1 item(s) on Monday.com''] [])
   \<and> process_activation_request_backup person_fails [] ''4242'' [''g1'', ''g2''] sample_groups
   = (Return SummaryExit True
        (''Process Summary: Added note to Zendesk Deal 4242 & updated status for 1 item(s) on Monday.com.''
          @ '' However, failed to assign owner for 1/1 item(s) and (Owner Assign Errors: Item 9001: user is deactivated).''),
      [(DealRetrieve ''4242'', True), (UserRetrieve 77, True)] @ sample_search_log @
      [(NoteCreate ''4242'' (zendesk_note_content [note_entry_backup sample_detail]), True),
       (StatusIndex, True), (ChangeStatus ''9001'' 3, True), (AssignPerson ''9001'' 47981810, False)])"
proof -
  have "\<not> contains ''user is deactivated''
         (final_message_of
            [''Added note to Zendesk Deal 4242'', ''Tagged note with '' @ quote @ ''LICENCE'' @ quote,
             ''Updated status to '' @ quote @ ''Sent & put in B2B CRM'' @ quote
               @ '' for 1 item(s) on Monday.com''] [])"
    by code_simp
  with run_person_fails run_person_fails_backup show ?thesis by (intro conjI)
qed

text \<open>
  Claim C2. On the run of the sample board where the note is created and the status
  update of the one found item fails, the current program returns success and the backup
  program returns failure. The owner and the user id handed to the current program are
  the ones the backup program resolves itself on that run.
\<close>

theorem success_policies_differ:
  "get_zendesk_deal_owner_email status_fails [] ''4242''
     = ((Some ''asoni@dxo.com'', None), [(DealRetrieve ''4242'', True), (UserRetrieve 77, True)])
   \<and> ZENDESK_OWNER_EMAIL_TO_MONDAY_ID ''asoni@dxo.com'' = Some 47981810
   \<and> process_activation_request status_fails [] ''4242'' [''g1'', ''g2''] sample_groups
     (Some ''asoni@dxo.com'') (Some 47981810)
   = Some (Return SummaryExit True
             (final_message_of
                [''Added note to Zendesk Deal 4242'', ''Tagged note with '' @ quote @ ''LICENCE'' @ quote]
                [''failed to update status for 1/1 item(s)'',
                 ''(Status Errors: Item 9001: column is locked)'']),
           sample_search_log @
           [(NoteCreate ''4242'' sample_note, True), (NoteTag 555, True), (StatusIndex, True),
            (ChangeStatus ''9001'' 3, False)])
   \<and> process_activation_request_backup status_fails [] ''4242'' [''g1'', ''g2''] sample_groups
   = (Return SummaryExit False
        (''Process Summary: Added note to Zendesk Deal 4242.''
          @ '' However, failed to update status for 1/1 item(s) and (Status Errors: Item 9001: column is locked).''),
      [(DealRetrieve ''4242'', True), (UserRetrieve 77, True)] @ sample_search_log @
      [(NoteCreate ''4242'' (zendesk_note_content [note_entry_backup sample_detail]), True),
       (StatusIndex, True), (ChangeStatus ''9001'' 3, False)])"
  using owner_of_sample run_status_fails run_status_fails_backup by (intro conjI) blast+

subsection \<open>A note that cannot be tagged\<close>

lemma tag_failure_message_nonempty: "tag_failure_message n r \<noteq> []"
  by (cases r) (simp_all add: tag_failure_message_def)

lemma write_note_tag_failed:
  assumes "notes_create env h deal content = Created (Some nid)" and "nid \<noteq> 0"
    and "note_tag env (h @ [(NoteCreate deal content, True)]) nid = r"
    and "\<forall>d. r \<noteq> TagHttp 200 d"
  shows "write_note env h deal content
           = (Inr (True, False, Some (tag_failure_message nid r)),
              h @ [(NoteCreate deal content, True), (NoteTag nid, False)])"
proof -
  have "tag_note env (h @ [(NoteCreate deal content, True)]) nid
          = ((False, Some (tag_failure_message nid r)),
             (h @ [(NoteCreate deal content, True)]) @ [(NoteTag nid, False)])"
    using assms(3,4) by (cases r) (auto simp: tag_note_def)
  with assms(1,2) show ?thesis
    by (simp add: write_note_def truthy_int_def)
qed

text \<open>
  Claim C6. In every run of the current program in which the search ends with at least
  one item, the note is created with an id, and the tagging request that follows fails
  (any answer but status 200, or an exception), the program returns success, and the text
  of the tagging failure is part of the summary message.
\<close>

theorem tag_failure_is_a_warning:
  assumes "find_codes env gm gids ([], None, h0) = Some (found, gerr, h1)"
    and "found \<noteq> []"
    and "content = zendesk_note_content (map note_entry (sort_found found))"
    and "notes_create env h1 deal content = Created (Some nid)" and "nid \<noteq> 0"
    and "note_tag env (h1 @ [(NoteCreate deal content, True)]) nid = r"
    and "\<forall>d. r \<noteq> TagHttp 200 d"
  shows "\<exists>msg h. process_activation_request env h0 deal gids gm email uid
                    = Some (Return SummaryExit True msg, h)
           \<and> contains (tag_failure_message nid r) msg
           \<and> (NoteCreate deal content, True) \<in> set h \<and> (NoteTag nid, False) \<in> set h"
proof -
  let ?h2 = "h1 @ [(NoteCreate deal content, True), (NoteTag nid, False)]"
  let ?te = "Some (tag_failure_message nid r)"
  have w: "write_note env h1 deal (zendesk_note_content (map note_entry (sort_found found)))
             = (Inr (True, False, ?te), ?h2)"
    using write_note_tag_failed[OF assms(4-7)] assms(3) by simp
  obtain c h3 where u: "update_items env uid (sort_found found) (zero_counters, ?h2) = (c, h3)"
    by (metis prod.exhaust)
  from update_items_summary[OF u] obtain es where h3: "h3 = ?h2 @ es" by blast
  let ?fp = "failure_parts_of ?te (owner_warning_of email uid) c (length (sort_found found))"
  have "tag_failure_message nid r \<in> set ?fp"
    by (simp add: failure_parts_of_def truthy_str_def tag_failure_message_nonempty)
  then have "contains (tag_failure_message nid r)
               (final_message_of (success_parts_of deal email True False c) ?fp)"
    by (rule failure_part_in_message)
  with process_summary_path[OF assms(1,2) w u, where email = email] h3
  show ?thesis by simp
qed

lemma search_sample:
  "find_codes tag_fails sample_groups [''g1'', ''g2''] ([], None, [])
     = Some ([sample_detail], None, sample_search_log)"
  by code_simp

theorem tag_failure_is_a_warning_witness:
  "find_codes tag_fails sample_groups [''g1'', ''g2''] ([], None, [])
     = Some ([sample_detail], None, sample_search_log)
   \<and> notes_create tag_fails sample_search_log ''4242''
        (zendesk_note_content (map note_entry (sort_found [sample_detail]))) = Created (Some 555)
   \<and> note_tag tag_fails
        (sample_search_log @ [(NoteCreate ''4242''
           (zendesk_note_content (map note_entry (sort_found [sample_detail]))), True)]) 555
        = TagHttp 500 ''server error''
   \<and> (\<exists>msg h. process_activation_request tag_fails [] ''4242'' [''g1'', ''g2''] sample_groups
                   (Some ''asoni@dxo.com'') (Some 47981810)
                    = Some (Return SummaryExit True msg, h)
           \<and> contains ''Failed to tag note 555 via direct API call. Status: 500, Response: server error'' msg
           \<and> (NoteTag 555, False) \<in> set h)"
proof -
  let ?content = "zendesk_note_content (map note_entry (sort_found [sample_detail]))"
  have a: "notes_create tag_fails sample_search_log ''4242'' ?content = Created (Some 555)"
    by (simp add: tag_fails_def all_fine_def)
  have b: "note_tag tag_fails (sample_search_log @ [(NoteCreate ''4242'' ?content, True)]) 555
             = TagHttp 500 ''server error''"
    by (simp add: tag_fails_def all_fine_def)
  have c: "\<forall>d. TagHttp 500 ''server error'' \<noteq> TagHttp 200 d" by simp
  have d: "tag_failure_message 555 (TagHttp 500 ''server error'')
             = ''Failed to tag note 555 via direct API call. Status: 500, Response: server error''"
    by code_simp
  have e: "[sample_detail] \<noteq> []" by simp
  have f: "(555::int) \<noteq> 0" by simp
  from tag_failure_is_a_warning[OF search_sample e refl a f b c,
      where email = "Some ''asoni@dxo.com''" and uid = "Some 47981810"]
  have "\<exists>msg h. process_activation_request tag_fails [] ''4242'' [''g1'', ''g2''] sample_groups
                   (Some ''asoni@dxo.com'') (Some 47981810)
                    = Some (Return SummaryExit True msg, h)
           \<and> contains (tag_failure_message 555 (TagHttp 500 ''server error'')) msg
           \<and> (NoteTag 555, False) \<in> set h" by blast
  with search_sample a b d show ?thesis by simp
qed

subsection \<open>Groups without an available item\<close>

text \<open>
  Claim C5. In the current program, a selected group whose fetch goes through and in which
  no item shows the status \<^verbatim>\<open>Not used\<close> leaves the found items and the error slot
  as they were. And in every run in which all the fetches of the search go through, no
  processing error is recorded and the run returns; it returns failure with the message
  that no codes were found exactly when no selected group gave an item.
\<close>

theorem no_codes_only_when_nothing_found:
  "(\<forall>items h'. paginate env gid h None 1 [] = Some (Inr items, h')
        \<and> (\<forall>it\<in>set items. \<not> shows_not_used it)
      \<longrightarrow> process_group env gm gid (found0, gerr0, h) = Some (found0, gerr0, h'))
   \<and> (\<forall>found gerr h1. find_codes env gm gids ([], None, h0) = Some (found, gerr, h1)
        \<and> (\<forall>e\<in>set (drop (length h0) h1). snd e)
      \<longrightarrow> gerr = None
          \<and> (\<exists>out h2. process_activation_request env h0 deal gids gm email uid = Some (out, h2)
                \<and> ((\<exists>ex. out = Return ex False (no_codes_message deal)) \<longleftrightarrow> found = [])))"
proof (intro conjI allI impI)
  fix items h'
  assume "paginate env gid h None 1 [] = Some (Inr items, h')
        \<and> (\<forall>it\<in>set items. \<not> shows_not_used it)"
  then show "process_group env gm gid (found0, gerr0, h) = Some (found0, gerr0, h')"
    using process_group_skips by blast
next
  fix found gerr h1
  assume a: "find_codes env gm gids ([], None, h0) = Some (found, gerr, h1)
        \<and> (\<forall>e\<in>set (drop (length h0) h1). snd e)"
  then have f: "find_codes env gm gids ([], None, h0) = Some (found, gerr, h1)" by blast
  from find_codes_log[OF f] obtain es where
    es: "h1 = h0 @ es" "gerr = None \<longleftrightarrow> (\<forall>e\<in>set es. snd e)" by auto
  from a es show g: "gerr = None" by simp
  show "\<exists>out h2. process_activation_request env h0 deal gids gm email uid = Some (out, h2)
                \<and> ((\<exists>ex. out = Return ex False (no_codes_message deal)) \<longleftrightarrow> found = [])"
  proof (cases "found = []")
    case True
    with f g process_nothing_found[of env gm gids h0 h1 deal email uid]
    show ?thesis by auto
  next
    case False
    with f g process_something_found[of env gm gids h0 found h1 deal email uid]
    show ?thesis by auto
  qed
qed

lemma search_only_used:
  "paginate all_fine ''g2'' [] None 1 [] = Some (Inr [used_item], [(ItemsPage ''g2'' None, True)])
   \<and> \<not> shows_not_used used_item
   \<and> find_codes all_fine sample_groups [''g2''] ([], None, [])
       = Some ([], None, [(ItemsPage ''g2'' None, True)])
   \<and> find_codes all_fine sample_groups [''g1'', ''g2''] ([], None, [])
       = Some ([sample_detail], None, sample_search_log)"
  by code_simp

text \<open>
  On the sample board: the second group alone gives the no-codes failure, and it adds
  nothing when the first group has given its item.
\<close>

theorem no_codes_only_when_nothing_found_witness:
  "paginate all_fine ''g2'' [] None 1 [] = Some (Inr [used_item], [(ItemsPage ''g2'' None, True)])
   \<and> \<not> shows_not_used used_item
   \<and> process_group all_fine sample_groups ''g2'' ([sample_detail], None, [])
        = Some ([sample_detail], None, [(ItemsPage ''g2'' None, True)])
   \<and> (\<exists>ex h2. process_activation_request all_fine [] ''4242'' [''g2''] sample_groups
                   (Some ''asoni@dxo.com'') (Some 47981810)
                 = Some (Return ex False (no_codes_message ''4242''), h2))
   \<and> (\<exists>out h2. process_activation_request all_fine [] ''4242'' [''g1'', ''g2''] sample_groups
                   (Some ''asoni@dxo.com'') (Some 47981810) = Some (out, h2)
          \<and> (\<forall>ex. out \<noteq> Return ex False (no_codes_message ''4242'')))"
proof -
  note s = search_only_used
  have used: "\<forall>it\<in>set [used_item]. \<not> shows_not_used it" using s by simp
  have ok1: "\<forall>e\<in>set (drop (length ([]::event list)) [(ItemsPage ''g2'' None, True)]). snd e"
    by simp
  have ok2: "\<forall>e\<in>set (drop (length ([]::event list)) sample_search_log). snd e"
    by (simp add: sample_search_log_def)
  from no_codes_only_when_nothing_found[of all_fine "''g2''" "[]" sample_groups
        "[sample_detail]" None "[''g2'']" "[]" "''4242''" "Some ''asoni@dxo.com''" "Some 47981810"]
    s used ok1
  have a: "process_group all_fine sample_groups ''g2'' ([sample_detail], None, [])
        = Some ([sample_detail], None, [(ItemsPage ''g2'' None, True)])"
    and b: "\<exists>ex h2. process_activation_request all_fine [] ''4242'' [''g2''] sample_groups
                   (Some ''asoni@dxo.com'') (Some 47981810)
                 = Some (Return ex False (no_codes_message ''4242''), h2)"
    by blast+
  have ne: "[sample_detail] \<noteq> []" by simp
  from no_codes_only_when_nothing_found[of all_fine "''g2''" "[]" sample_groups
        "[sample_detail]" None "[''g1'', ''g2'']" "[]" "''4242''" "Some ''asoni@dxo.com''" "Some 47981810"]
    s ok2 ne
  have c: "\<exists>out h2. process_activation_request all_fine [] ''4242'' [''g1'', ''g2''] sample_groups
                   (Some ''asoni@dxo.com'') (Some 47981810) = Some (out, h2)
          \<and> (\<forall>ex. out \<noteq> Return ex False (no_codes_message ''4242''))"
    by blast
  from s a b c show ?thesis by blast
qed

subsection \<open>An owner that cannot be resolved\<close>

lemma owner_log:
  assumes "get_zendesk_deal_owner_email env h deal = (r, h1)"
  shows "\<exists>es. h1 = h @ es \<and> (\<forall>e\<in>set es. \<not> is_mutation (fst e))"
  using assms
  by (auto simp: get_zendesk_deal_owner_email_def Let_def is_mutation_def
      split: deal_response.splits user_response.splits if_splits)

lemma backup_owner_exit:
  assumes "get_zendesk_deal_owner_email env h0 deal = ((owner_email, owner_error), h1)"
    and "truthy_str owner_error \<or> \<not> truthy_str owner_email"
  shows "\<exists>msg. process_activation_request_backup env h0 deal gids gm
                  = (Return OwnerExit False msg, h1)"
  using assms by (auto simp: process_activation_request_backup_def)

lemma step1_owner_failure:
  assumes "get_zendesk_deal_owner_email env h0 deal = ((owner_email, owner_error), h1)"
    and "truthy_str owner_error \<or> \<not> truthy_str owner_email"
    and "strip input = deal" and "isdigit deal"
  shows "\<exists>st'. step1_submit env h0 input st = (st', h1) \<and> current_step st' = current_step st
           \<and> truthy_str (show_error st') \<and> all_groups st' = all_groups st
           \<and> selected_groups st' = selected_groups st"
proof (cases "truthy_str owner_error")
  case True
  with assms(1,3,4)
  have "step1_submit env h0 input st = (st\<lparr>ss_deal_id := deal, show_error := owner_error\<rparr>, h1)"
    by (simp add: step1_submit_def)
  with True show ?thesis by simp
next
  case False
  with assms(2) have "\<not> truthy_str owner_email" by simp
  with False assms(1,3,4)
  have "step1_submit env h0 input st
          = (st\<lparr>ss_deal_id := deal,
                 show_error := Some (''Could not retrieve owner email for Zendesk Deal ''
                                       @ deal @ ''.'')\<rparr>, h1)"
    by (simp add: step1_submit_def)
  then show ?thesis by (simp add: truthy_str_def)
qed

lemma step2_needs_step_two:
  fixes st :: session
  shows "current_step st \<noteq> 2 \<Longrightarrow>
    step2_proceed env h (step2_select checked st) = Some (step2_select checked st, h, None)"
  by (simp add: step2_proceed_def step2_select_def)

text \<open>
  Claim C4. Whenever the owner resolution gives an error or an empty email, the run ends
  in failure with no board mutation sent. In the backup program the orchestrator returns
  failure right after the resolution, and the log of the run holds the requests of the
  resolution only, none of them a status change or an owner assignment. In the current
  program the resolution is part of step 1: the handler shows an error and stays at step
  1, so the button of step 2 never calls the orchestrator, and the log again holds the
  requests of the resolution only.
\<close>

theorem owner_failure_stops_the_run:
  assumes "get_zendesk_deal_owner_email env h0 deal = ((owner_email, owner_error), h1)"
    and "truthy_str owner_error \<or> \<not> truthy_str owner_email"
  shows "(\<exists>msg. process_activation_request_backup env h0 deal gids gm
                  = (Return OwnerExit False msg, h1))
       \<and> (\<exists>es. h1 = h0 @ es \<and> (\<forall>e\<in>set es. \<not> is_mutation (fst e)))
       \<and> (\<forall>input st checked. strip input = deal \<and> isdigit deal \<and> current_step st = 1 \<longrightarrow>
            (\<exists>st'. step1_submit env h0 input st = (st', h1) \<and> current_step st' = 1
                 \<and> truthy_str (show_error st')
                 \<and> step2_proceed env h1 (step2_select checked st')
                      = Some (step2_select checked st', h1, None)))
       \<and> (\<forall>input checked. strip input = deal \<and> isdigit deal \<and> h0 = [] \<longrightarrow>
            (\<exists>st'. wizard_run env input checked = Some (st', h1, None) \<and> current_step st' = 1
                 \<and> truthy_str (show_error st')))"
proof (intro conjI allI impI)
  show "\<exists>msg. process_activation_request_backup env h0 deal gids gm
                  = (Return OwnerExit False msg, h1)"
    using assms by (rule backup_owner_exit)
  show "\<exists>es. h1 = h0 @ es \<and> (\<forall>e\<in>set es. \<not> is_mutation (fst e))"
    using assms(1) by (rule owner_log)
next
  fix input and st :: session and checked
  assume a: "strip input = deal \<and> isdigit deal \<and> current_step st = 1"
  with step1_owner_failure[OF assms, of input st] obtain st' where
    st': "step1_submit env h0 input st = (st', h1)" "current_step st' = 1"
         "truthy_str (show_error st')" by auto
  from st'(2) have "current_step st' \<noteq> 2" by simp
  from step2_needs_step_two[OF this] st'
  show "\<exists>st'. step1_submit env h0 input st = (st', h1) \<and> current_step st' = 1
                 \<and> truthy_str (show_error st')
                 \<and> step2_proceed env h1 (step2_select checked st')
                      = Some (step2_select checked st', h1, None)" by blast
next
  fix input checked
  assume a: "strip input = deal \<and> isdigit deal \<and> h0 = []"
  with step1_owner_failure[OF assms, of input initial_session] obtain st' where
    st': "step1_submit env [] input initial_session = (st', h1)" "current_step st' = 1"
         "truthy_str (show_error st')" "all_groups st' = []"
    by (auto simp: initial_session_def)
  from st'(4) have sel: "step2_select checked st' = st'" by (simp add: step2_select_def)
  from st'(2) have "current_step st' \<noteq> 2" by simp
  from step2_needs_step_two[OF this, of env h1 checked] sel st'
  show "\<exists>st'. wizard_run env input checked = Some (st', h1, None) \<and> current_step st' = 1
                 \<and> truthy_str (show_error st')"
    by (simp add: wizard_run_def)
qed

lemma owner_fails_resolution:
  "get_zendesk_deal_owner_email owner_fails [] ''4242''
     = ((None, Some ''Zendesk Deal ID 4242 not found.''), [(DealRetrieve ''4242'', False)])
   \<and> strip '' 4242 '' = ''4242'' \<and> isdigit ''4242''"
  by code_simp

theorem owner_failure_stops_the_run_witness:
  "get_zendesk_deal_owner_email owner_fails [] ''4242''
     = ((None, Some ''Zendesk Deal ID 4242 not found.''), [(DealRetrieve ''4242'', False)])
   \<and> truthy_str (Some ''Zendesk Deal ID 4242 not found.'')
   \<and> (\<exists>msg. process_activation_request_backup owner_fails [] ''4242'' [''g1'', ''g2''] sample_groups
                  = (Return OwnerExit False msg, [(DealRetrieve ''4242'', False)]))
   \<and> (\<exists>st'. wizard_run owner_fails '' 4242 '' (\<lambda>g. True)
                = Some (st', [(DealRetrieve ''4242'', False)], None)
          \<and> current_step st' = 1 \<and> truthy_str (show_error st'))
   \<and> \<not> is_mutation (DealRetrieve ''4242'')"
proof -
  note r = owner_fails_resolution
  have t: "truthy_str (Some ''Zendesk Deal ID 4242 not found.'') \<or> \<not> truthy_str None"
    by (simp add: truthy_str_def)
  have r1: "get_zendesk_deal_owner_email owner_fails [] ''4242''
     = ((None, Some ''Zendesk Deal ID 4242 not found.''), [(DealRetrieve ''4242'', False)])"
    using r by blast
  from owner_failure_stops_the_run[OF r1 t, of "[''g1'', ''g2'']" sample_groups]
  have a: "\<exists>msg. process_activation_request_backup owner_fails [] ''4242'' [''g1'', ''g2''] sample_groups
                  = (Return OwnerExit False msg, [(DealRetrieve ''4242'', False)])"
    and b: "\<forall>input checked. strip input = ''4242'' \<and> isdigit ''4242'' \<and> ([]::event list) = [] \<longrightarrow>
            (\<exists>st'. wizard_run owner_fails input checked = Some (st', [(DealRetrieve ''4242'', False)], None)
                 \<and> current_step st' = 1 \<and> truthy_str (show_error st'))"
    by blast+
  from b r have c: "\<exists>st'. wizard_run owner_fails '' 4242 '' (\<lambda>g. True)
                = Some (st', [(DealRetrieve ''4242'', False)], None)
          \<and> current_step st' = 1 \<and> truthy_str (show_error st')" by blast
  have d: "\<not> is_mutation (DealRetrieve ''4242'')" by (simp add: is_mutation_def)
  have e: "truthy_str (Some ''Zendesk Deal ID 4242 not found.'')" by (simp add: truthy_str_def)
  from r1 a c d e show ?thesis by blast
qed

subsection \<open>Owner assignment\<close>

lemma table_ids_nonzero: "ZENDESK_OWNER_EMAIL_TO_MONDAY_ID e = Some n \<Longrightarrow> n \<noteq> 0"
  by (simp add: ZENDESK_OWNER_EMAIL_TO_MONDAY_ID_def split: if_splits)

lemma table_truthy:
  "truthy_int (ZENDESK_OWNER_EMAIL_TO_MONDAY_ID e) \<longleftrightarrow> e \<in> dom ZENDESK_OWNER_EMAIL_TO_MONDAY_ID"
  by (cases "ZENDESK_OWNER_EMAIL_TO_MONDAY_ID e")
     (auto simp: truthy_int_def dest: table_ids_nonzero)

lemma lower_char_not_W: "lower_char c \<noteq> CHR ''W''"
proof (cases "map_of (zip ''ABCDEFGHIJKLMNOPQRSTUVWXYZ'' ''abcdefghijklmnopqrstuvwxyz'') c")
  case None
  then have "c \<noteq> CHR ''W''" by auto
  with None show ?thesis by (simp add: lower_char_def)
next
  case (Some l)
  then have "l \<in> set ''abcdefghijklmnopqrstuvwxyz''"
    by (metis in_set_zipE map_of_SomeD)
  then have "l \<noteq> CHR ''W''" by auto
  with Some show ?thesis by (simp add: lower_char_def)
qed

lemma replace_str_absent:
  assumes "old \<noteq> []" and "hd old \<notin> set s"
  shows "replace_str old new s = s"
  using assms
proof (induction s)
  case Nil
  then show ?case by (subst replace_str.simps) simp
next
  case (Cons c cs)
  from Cons.prems have "take (length old) (c # cs) \<noteq> old"
    by (cases old) auto
  moreover from Cons have "replace_str old new cs = cs" by simp
  ultimately show ?case using Cons.prems(1) by (subst replace_str.simps) simp
qed

lemma warning_stripped:
  assumes "CHR ''W'' \<notin> set email"
  shows "replace_str ''Warning: '' [] (''Warning: '' @ warning_text email) = warning_text email"
proof -
  have noW: "hd ''Warning: '' \<notin> set (warning_text email)"
    using assms by (simp add: warning_text_def quote_def)
  have "replace_str ''Warning: '' [] (''Warning: '' @ warning_text email)
          = replace_str ''Warning: '' [] (warning_text email)"
    by (subst replace_str.simps) simp
  also have "\<dots> = warning_text email"
    using noW by (intro replace_str_absent) simp_all
  finally show ?thesis .
qed

lemma assignment_is_for_an_item:
  assumes "e \<in> set es" and "is_assignment e"
  shows "\<exists>j. assign_attempted j es"
proof -
  from assms(2) obtain j u where "fst e = AssignPerson j u"
    by (auto simp: is_assignment_def split: request.splits)
  with assms(1) have "assign_attempted j es"
    by (auto simp: assign_attempted_def list_ex_iff intro!: bexI[of _ e])
  then show ?thesis ..
qed

lemma owner_warning_unmapped:
  assumes "email \<noteq> []" and "\<not> truthy_int uid"
  shows "owner_warning_of (Some email) uid = Some (''Warning: '' @ warning_text email)"
  using assms by (simp add: owner_warning_of_def truthy_str_def warning_text_def)

lemma sort_found_set: "set (sort_found xs) = set xs"
  by (simp add: sort_found_def)

lemma sort_found_length: "length (sort_found xs) = length xs"
  by (simp add: sort_found_def)

text \<open>
  Claim C9. Take a run of the current program that reaches the loop over the found items
  (the search ended with at least one item and the note was written), with the owner
  email as the resolution gives it (lower-cased, not empty) and the user id looked up in
  the assignment table, as step 2 does. Then, in the part of the log that the loop adds:
  an owner assignment is attempted for an item exactly when the email is in the table and
  the status update of that item went through; only found items are updated, and one
  status update is attempted per found item; the four counters are the numbers of
  successful status changes, of items whose status update failed, of successful
  assignments and of failed assignments. When the email is not in the table, no
  assignment is attempted at all and the summary message holds the owner warning.
\<close>

theorem assignment_follows_status_and_mapping:
  assumes "find_codes env gm gids ([], None, h0) = Some (found, gerr, h1)"
    and "found \<noteq> []"
    and "write_note env h1 deal (zendesk_note_content (map note_entry (sort_found found)))
           = (Inr (zs, ts, te), h2)"
    and "email = map lower_char raw_email" and "email \<noteq> []"
    and "uid = ZENDESK_OWNER_EMAIL_TO_MONDAY_ID email"
  shows "\<exists>msg es c.
           process_activation_request env h0 deal gids gm (Some email) uid
             = Some (Return SummaryExit True msg, h2 @ es)
         \<and> update_items env uid (sort_found found) (zero_counters, h2) = (c, h2 @ es)
         \<and> (\<forall>i. assign_attempted i es
                \<longleftrightarrow> email \<in> dom ZENDESK_OWNER_EMAIL_TO_MONDAY_ID \<and> status_updated i es)
         \<and> (\<forall>i. status_updated i es \<longrightarrow> i \<in> fst ` set found)
         \<and> count_events (\<lambda>e. fst e = StatusIndex) es = length found
         \<and> monday_update_successes c = count_events (\<lambda>e. is_status_change e \<and> snd e) es
         \<and> monday_update_successes c + monday_update_failures c = length found
         \<and> monday_person_successes c = count_events (\<lambda>e. is_assignment e \<and> snd e) es
         \<and> monday_person_failures c = count_events (\<lambda>e. is_assignment e \<and> \<not> snd e) es
         \<and> (email \<notin> dom ZENDESK_OWNER_EMAIL_TO_MONDAY_ID
              \<longrightarrow> (\<forall>e\<in>set es. \<not> is_assignment e) \<and> contains (warning_text email) msg)"
proof -
  let ?items = "sort_found found"
  obtain c h3 where u: "update_items env uid ?items (zero_counters, h2) = (c, h3)"
    by (metis prod.exhaust)
  from update_items_summary[OF u] obtain es where
    h3: "h3 = h2 @ es" and rs: "run_summary uid (map fst ?items) zero_counters c es" by blast
  let ?fp = "failure_parts_of te (owner_warning_of (Some email) uid) c (length ?items)"
  let ?msg = "final_message_of (success_parts_of deal (Some email) True ts c) ?fp"
  have run: "process_activation_request env h0 deal gids gm (Some email) uid
               = Some (Return SummaryExit True ?msg, h2 @ es)"
    using process_summary_path[OF assms(1,2,3) u, where email = "Some email"] h3 by simp
  have mapped: "truthy_int uid \<longleftrightarrow> email \<in> dom ZENDESK_OWNER_EMAIL_TO_MONDAY_ID"
    unfolding assms(6) by (rule table_truthy)
  from rs have a1: "\<forall>i. assign_attempted i es \<longleftrightarrow> truthy_int uid \<and> status_updated i es"
    by (simp add: run_summary_def)
  from rs have a2: "\<forall>i. status_updated i es \<longrightarrow> i \<in> set (map fst ?items)"
    by (simp add: run_summary_def)
  from rs have a3: "count_events (\<lambda>e. fst e = StatusIndex) es = length (map fst ?items)"
    by (simp add: run_summary_def)
  from rs have a4: "monday_update_successes c
      = monday_update_successes zero_counters + count_events (\<lambda>e. is_status_change e \<and> snd e) es"
    by (simp add: run_summary_def)
  from rs have a5: "monday_update_successes c + monday_update_failures c
      = monday_update_successes zero_counters + monday_update_failures zero_counters
          + length (map fst ?items)"
    by (simp add: run_summary_def)
  from rs have a6: "monday_person_successes c
      = monday_person_successes zero_counters + count_events (\<lambda>e. is_assignment e \<and> snd e) es"
    by (simp add: run_summary_def)
  from rs have a7: "monday_person_failures c
      = monday_person_failures zero_counters + count_events (\<lambda>e. is_assignment e \<and> \<not> snd e) es"
    by (simp add: run_summary_def)
  have b1: "\<forall>i. assign_attempted i es
                \<longleftrightarrow> email \<in> dom ZENDESK_OWNER_EMAIL_TO_MONDAY_ID \<and> status_updated i es"
    using a1 mapped by simp
  have b2: "\<forall>i. status_updated i es \<longrightarrow> i \<in> fst ` set found"
    using a2 by (simp add: sort_found_set)
  have b3: "count_events (\<lambda>e. fst e = StatusIndex) es = length found"
    using a3 by (simp add: sort_found_length)
  have b4: "monday_update_successes c = count_events (\<lambda>e. is_status_change e \<and> snd e) es"
    using a4 by (simp add: zero_counters_def)
  have b5: "monday_update_successes c + monday_update_failures c = length found"
    using a5 by (simp add: zero_counters_def sort_found_length)
  have b6: "monday_person_successes c = count_events (\<lambda>e. is_assignment e \<and> snd e) es"
    using a6 by (simp add: zero_counters_def)
  have b7: "monday_person_failures c = count_events (\<lambda>e. is_assignment e \<and> \<not> snd e) es"
    using a7 by (simp add: zero_counters_def)
  have b8: "email \<notin> dom ZENDESK_OWNER_EMAIL_TO_MONDAY_ID
              \<longrightarrow> (\<forall>e\<in>set es. \<not> is_assignment e) \<and> contains (warning_text email) ?msg"
  proof
    assume un: "email \<notin> dom ZENDESK_OWNER_EMAIL_TO_MONDAY_ID"
    with mapped have nt: "\<not> truthy_int uid" by simp
    with a1 have "\<forall>i. \<not> assign_attempted i es" by simp
    then have none: "\<forall>e\<in>set es. \<not> is_assignment e"
      using assignment_is_for_an_item by blast
    have "CHR ''W'' \<notin> set email"
      unfolding assms(4) using lower_char_not_W by (metis imageE list.set_map)
    then have "replace_str ''Warning: '' [] (''Warning: '' @ warning_text email) = warning_text email"
      by (rule warning_stripped)
    moreover have "owner_warning_of (Some email) uid = Some (''Warning: '' @ warning_text email)"
      using assms(5) nt by (rule owner_warning_unmapped)
    ultimately have "warning_text email \<in> set ?fp"
      by (simp add: failure_parts_of_def truthy_str_def)
    then have "contains (warning_text email) ?msg" by (rule failure_part_in_message)
    with none show "(\<forall>e\<in>set es. \<not> is_assignment e) \<and> contains (warning_text email) ?msg" ..
  qed
  from run u[unfolded h3] b1 b2 b3 b4 b5 b6 b7 b8 show ?thesis by blast
qed

lemma sample_note_written:
  "write_note all_fine sample_search_log ''4242''
     (zendesk_note_content (map note_entry (sort_found [sample_detail])))
   = (Inr (True, True, None),
      sample_search_log @ [(NoteCreate ''4242'' sample_note, True), (NoteTag 555, True)])"
  by code_simp

lemma mapped_owner_lower: "''asoni@dxo.com'' = map lower_char ''ASoni@dxo.com''"
  by code_simp

lemma mapped_owner_id: "ZENDESK_OWNER_EMAIL_TO_MONDAY_ID ''asoni@dxo.com'' = Some 47981810"
  by code_simp

lemma unmapped_owner_lower: "''nobody@dxo.com'' = map lower_char ''Nobody@dxo.com''"
  by code_simp

lemma unmapped_owner_id: "ZENDESK_OWNER_EMAIL_TO_MONDAY_ID ''nobody@dxo.com'' = None"
  by code_simp

text \<open>
  On the sample board, once with an owner of the table and once with an unknown owner.
\<close>

theorem assignment_follows_status_and_mapping_witness:
  "(\<exists>msg es (c::counters).
      process_activation_request all_fine [] ''4242'' [''g1'', ''g2''] sample_groups
        (Some ''asoni@dxo.com'') (Some 47981810)
        = Some (Return SummaryExit True msg,
                (sample_search_log @ [(NoteCreate ''4242'' sample_note, True), (NoteTag 555, True)]) @ es)
      \<and> ''asoni@dxo.com'' \<in> dom ZENDESK_OWNER_EMAIL_TO_MONDAY_ID
      \<and> status_updated ''9001'' es \<and> assign_attempted ''9001'' es
      \<and> monday_update_successes c = 1 \<and> monday_person_successes c = 1)
   \<and> (\<exists>msg es.
      process_activation_request all_fine [] ''4242'' [''g1'', ''g2''] sample_groups
        (Some ''nobody@dxo.com'') None
        = Some (Return SummaryExit True msg,
                (sample_search_log @ [(NoteCreate ''4242'' sample_note, True), (NoteTag 555, True)]) @ es)
      \<and> ''nobody@dxo.com'' \<notin> dom ZENDESK_OWNER_EMAIL_TO_MONDAY_ID
      \<and> filter is_assignment es = [] \<and> contains (warning_text ''nobody@dxo.com'') msg)"
proof -
  let ?h2 = "sample_search_log @ [(NoteCreate ''4242'' sample_note, True), (NoteTag 555, True)]"
  let ?table = ZENDESK_OWNER_EMAIL_TO_MONDAY_ID
  let ?B = "\<lambda>email uid msg es c.
           process_activation_request all_fine [] ''4242'' [''g1'', ''g2''] sample_groups (Some email) uid
             = Some (Return SummaryExit True msg, ?h2 @ es)
         \<and> update_items all_fine uid (sort_found [sample_detail]) (zero_counters, ?h2) = (c, ?h2 @ es)
         \<and> (\<forall>i. assign_attempted i es \<longleftrightarrow> email \<in> dom ?table \<and> status_updated i es)
         \<and> (\<forall>i. status_updated i es \<longrightarrow> i \<in> fst ` set [sample_detail])
         \<and> count_events (\<lambda>e. fst e = StatusIndex) es = length [sample_detail]
         \<and> monday_update_successes c = count_events (\<lambda>e. is_status_change e \<and> snd e) es
         \<and> monday_update_successes c + monday_update_failures c = length [sample_detail]
         \<and> monday_person_successes c = count_events (\<lambda>e. is_assignment e \<and> snd e) es
         \<and> monday_person_failures c = count_events (\<lambda>e. is_assignment e \<and> \<not> snd e) es
         \<and> (email \<notin> dom ?table
              \<longrightarrow> (\<forall>e\<in>set es. \<not> is_assignment e) \<and> contains (warning_text email) msg)"
  note search = search_only_used[THEN conjunct2, THEN conjunct2, THEN conjunct2]
  have ne: "[sample_detail] \<noteq> []" by (rule list.distinct(2))
  have n1: "''asoni@dxo.com'' \<noteq> []" by (rule list.distinct(2))
  have n2: "''nobody@dxo.com'' \<noteq> []" by (rule list.distinct(2))
  have d1: "''asoni@dxo.com'' \<in> dom ?table" using mapped_owner_id by (rule domI)
  have d2: "''nobody@dxo.com'' \<notin> dom ?table"
    using unmapped_owner_id by (simp only: domIff not_not)

  have "\<exists>msg es c. ?B ''asoni@dxo.com'' (Some 47981810) msg es c"
    using assignment_follows_status_and_mapping[OF search ne sample_note_written
            mapped_owner_lower n1 mapped_owner_id[symmetric]] .
  then obtain msg where "\<exists>es c. ?B ''asoni@dxo.com'' (Some 47981810) msg es c" ..
  then obtain es where "\<exists>c. ?B ''asoni@dxo.com'' (Some 47981810) msg es c" ..
  then obtain c where big: "?B ''asoni@dxo.com'' (Some 47981810) msg es c" ..
  note r1 = big[THEN conjunct1]
  note iff1 = big[THEN conjunct2, THEN conjunct2, THEN conjunct1]
  note su1 = big[THEN conjunct2, THEN conjunct2, THEN conjunct2, THEN conjunct2, THEN conjunct2,
                 THEN conjunct1]
  note ps1 = big[THEN conjunct2, THEN conjunct2, THEN conjunct2, THEN conjunct2, THEN conjunct2,
                 THEN conjunct2, THEN conjunct2, THEN conjunct1]
  have "Some (Return SummaryExit True msg, ?h2 @ es)
      = Some (Return SummaryExit True
             (final_message_of
                [''Added note to Zendesk Deal 4242'', ''Tagged note with '' @ quote @ ''LICENCE'' @ quote,
                 ''Updated status to '' @ quote @ ''Sent & put in B2B CRM'' @ quote
                   @ '' for 1 item(s) on Monday.com'',
                 ''Assigned owner (asoni@dxo.com) for 1 item(s)''] []),
           sample_search_log @
           [(NoteCreate ''4242'' sample_note, True), (NoteTag 555, True), (StatusIndex, True),
            (ChangeStatus ''9001'' 3, True), (AssignPerson ''9001'' 47981810, True)])"
    using r1 run_all_fine by (rule trans[OF sym])
  then have "?h2 @ es = sample_search_log @
           [(NoteCreate ''4242'' sample_note, True), (NoteTag 555, True), (StatusIndex, True),
            (ChangeStatus ''9001'' 3, True), (AssignPerson ''9001'' 47981810, True)]"
    by (simp only: option.inject prod.inject)
  then have es: "es = [(StatusIndex, True), (ChangeStatus ''9001'' 3, True),
                       (AssignPerson ''9001'' 47981810, True)]"
    by (simp only: append_assoc append.simps same_append_eq list.inject)
  have s9: "status_updated ''9001'' es" unfolding es by code_simp
  from iff1 have "assign_attempted ''9001'' es
       \<longleftrightarrow> ''asoni@dxo.com'' \<in> dom ?table \<and> status_updated ''9001'' es" by (rule spec)
  with d1 s9 have a9: "assign_attempted ''9001'' es" by (simp only: simp_thms)
  have "count_events (\<lambda>e. is_status_change e \<and> snd e)
          [(StatusIndex, True), (ChangeStatus ''9001'' 3, True),
           (AssignPerson ''9001'' 47981810, True)] = 1" by code_simp
  with su1 have c1: "monday_update_successes c = 1" unfolding es by (rule trans)
  have "count_events (\<lambda>e. is_assignment e \<and> snd e)
          [(StatusIndex, True), (ChangeStatus ''9001'' 3, True),
           (AssignPerson ''9001'' 47981810, True)] = 1" by code_simp
  with ps1 have c2: "monday_person_successes c = 1" unfolding es by (rule trans)
  have first: "\<exists>msg es (c::counters).
      process_activation_request all_fine [] ''4242'' [''g1'', ''g2''] sample_groups
        (Some ''asoni@dxo.com'') (Some 47981810) = Some (Return SummaryExit True msg, ?h2 @ es)
      \<and> ''asoni@dxo.com'' \<in> dom ?table
      \<and> status_updated ''9001'' es \<and> assign_attempted ''9001'' es
      \<and> monday_update_successes c = 1 \<and> monday_person_successes c = 1"
    using r1 d1 s9 a9 c1 c2 by (intro exI conjI)

  have "\<exists>msg es c. ?B ''nobody@dxo.com'' None msg es c"
    using assignment_follows_status_and_mapping[OF search ne sample_note_written
            unmapped_owner_lower n2 unmapped_owner_id[symmetric]] .
  then obtain msg' where "\<exists>es c. ?B ''nobody@dxo.com'' None msg' es c" ..
  then obtain es' where "\<exists>c. ?B ''nobody@dxo.com'' None msg' es' c" ..
  then obtain c' where big': "?B ''nobody@dxo.com'' None msg' es' c'" ..
  note r2 = big'[THEN conjunct1]
  note last = big'[THEN conjunct2, THEN conjunct2, THEN conjunct2, THEN conjunct2, THEN conjunct2,
                   THEN conjunct2, THEN conjunct2, THEN conjunct2, THEN conjunct2]
  from last d2 have nw: "(\<forall>e\<in>set es'. \<not> is_assignment e)
      \<and> contains (warning_text ''nobody@dxo.com'') msg'" by (rule mp)
  from nw[THEN conjunct1] have f: "filter is_assignment es' = []"
    by (simp only: filter_empty_conv) 
  have second: "\<exists>msg es.
      process_activation_request all_fine [] ''4242'' [''g1'', ''g2''] sample_groups
        (Some ''nobody@dxo.com'') None = Some (Return SummaryExit True msg, ?h2 @ es)
      \<and> ''nobody@dxo.com'' \<notin> dom ?table
      \<and> filter is_assignment es = [] \<and> contains (warning_text ''nobody@dxo.com'') msg"
    using r2 d2 f nw[THEN conjunct2] by (intro exI conjI)
  from first second show ?thesis by (rule conjI)
qed

end
